theory Spec2Isabelle
  imports Complex_Main "HOL-Library.Word"
begin

section \<open>CharmVault: the vault transaction pipeline\<close>

text \<open>
  A shallow embedding of the service layer of the CharmVault front end:
  \<^verbatim>\<open>utxoLockService.ts\<close>, \<open>spellBuilder.ts\<close>, \<open>vaultService.ts\<close> and
  \<open>psbtHelper.ts\<close>. JavaScript numbers that hold satoshis, block heights and epoch
  milliseconds are modelled as \<open>int\<close>, and the arithmetic that can leave the integers or
  the range in which a double is exact (the amounts of a distribution, the bitcoin amount
  of a vault record) is rounded as the runtime rounds it; the wall clock, the wallets, the
  explorer, the prover and the node are oracles collected in a record, so every theorem
  holds for each behaviour of these collaborators.
\<close>

subsection \<open>Errors and JavaScript helpers\<close>

text \<open>
  \<open>Error msg\<close> is a plain JavaScript \<open>Error\<close>; \<open>CharmVaultError msg code\<close> is the
  structured error of \<open>types/charms.ts\<close> (its subclasses \<open>WalletError\<close>, \<open>ProverError\<close>
  and \<open>BitcoinError\<close> are \<open>CharmVaultError\<close>s with a fixed code).
\<close>

datatype error = Error string | CharmVaultError string string

fun message :: "error \<Rightarrow> string" where
  "message (Error m) = m"
| "message (CharmVaultError m c) = m"

fun is_CharmVaultError :: "error \<Rightarrow> bool" where
  "is_CharmVaultError (Error m) = False"
| "is_CharmVaultError (CharmVaultError m c) = True"

text \<open>The decimal text of a number, as a template literal prints it.\<close>

definition digit_char :: "nat \<Rightarrow> char" where
  "digit_char d =
     (if d = 0 then CHR ''0'' else if d = 1 then CHR ''1'' else if d = 2 then CHR ''2''
      else if d = 3 then CHR ''3'' else if d = 4 then CHR ''4'' else if d = 5 then CHR ''5''
      else if d = 6 then CHR ''6'' else if d = 7 then CHR ''7'' else if d = 8 then CHR ''8''
      else CHR ''9'')"

fun show_nat :: "nat \<Rightarrow> string" where
  "show_nat n =
     (if n < 10 then [digit_char n]
      else show_nat (n div 10) @ [digit_char (n mod 10)])"

declare show_nat.simps [simp del]

definition show_int :: "int \<Rightarrow> string" where
  "show_int i = (if i < 0 then CHR ''-'' # show_nat (nat (- i)) else show_nat (nat i))"

fun starts_with :: "string \<Rightarrow> string \<Rightarrow> bool" where
  "starts_with s [] = True"
| "starts_with [] (p # ps) = False"
| "starts_with (c # cs) (p # ps) = (c = p \<and> starts_with cs ps)"

fun str_includes :: "string \<Rightarrow> string \<Rightarrow> bool" where
  "str_includes [] pat = (pat = [])"
| "str_includes (c # cs) pat = (starts_with (c # cs) pat \<or> str_includes cs pat)"

subsection \<open>JavaScript numbers\<close>

text \<open>
  A JavaScript number is an IEEE 754 binary64 value, and every arithmetic operation
  returns the exact result rounded to the nearest such value, ties to the even
  significand. \<open>round_double\<close> is that rounding on the rationals: a value of magnitude
  at least \<open>2 ^ 53\<close> is rounded to a multiple of the power of two \<open>2 ^ f\<close> that brings it
  below \<open>2 ^ 53\<close>, a smaller one to a multiple of \<open>1 / 2 ^ g\<close>, where \<open>g\<close> brings it to
  \<open>2 ^ 52\<close> or beyond and is at most 1074, the exponent of the smallest subnormal. A result
  of magnitude \<open>2 ^ 1024\<close> or more, which the runtime holds as \<open>Infinity\<close>, is outside this
  model.
\<close>

definition round_half_even :: "rat \<Rightarrow> int" where
  "round_half_even q =
     (let k = \<lfloor>q\<rfloor>; r = q - of_int k
      in if r < 1 / 2 then k else if 1 / 2 < r then k + 1 else if even k then k else k + 1)"

fun scale_up :: "nat \<Rightarrow> rat \<Rightarrow> nat" where
  "scale_up fuel x =
     (if fuel = 0 \<or> 2 ^ 52 \<le> x then 0 else Suc (scale_up (fuel - 1) (2 * x)))"

fun scale_down :: "nat \<Rightarrow> rat \<Rightarrow> nat" where
  "scale_down fuel x =
     (if fuel = 0 \<or> x < 2 ^ 53 then 0 else Suc (scale_down (fuel - 1) (x / 2)))"

declare scale_up.simps [simp del] scale_down.simps [simp del]

definition round_pos :: "rat \<Rightarrow> rat" where
  "round_pos x =
     (if 2 ^ 53 \<le> x then
        (let f = scale_down 971 x in of_int (round_half_even (x / 2 ^ f)) * 2 ^ f)
      else
        (let g = scale_up 1074 x in of_int (round_half_even (x * 2 ^ g)) / 2 ^ g))"

definition round_double :: "rat \<Rightarrow> rat" where
  "round_double x =
     (if x = 0 then 0 else if x < 0 then - round_pos (- x) else round_pos x)"

text \<open>The difference \<open>a - b\<close> of two integer-valued numbers; it is an integer again.\<close>

definition js_minus :: "int \<Rightarrow> int \<Rightarrow> int" where
  "js_minus a b = \<lfloor>round_double (of_int a - of_int b)\<rfloor>"

text \<open>
  An output index is an integer or, when it was parsed from a text without digits,
  \<open>NaN\<close>. \<open>parseInt\<close> is \<open>parseInt(_, 10)\<close>: it skips leading white space (that of the
  ASCII range here), reads a sign and the longest prefix of decimal digits, and answers
  \<open>NaN\<close> when there is no digit and the integer read, rounded to a double, otherwise. An
  absent argument is read as the text \<open>undefined\<close>.
\<close>

datatype number = Num int | NaN

definition show_number :: "number \<Rightarrow> string" where
  "show_number v = (case v of Num i \<Rightarrow> show_int i | NaN \<Rightarrow> ''NaN'')"

definition is_white_space :: "char \<Rightarrow> bool" where
  "is_white_space c =
     (c = CHR '' '' \<or> c = CHR 0x09 \<or> c = CHR 0x0A \<or> c = CHR 0x0B \<or> c = CHR 0x0C
      \<or> c = CHR 0x0D)"

definition digit_value :: "char \<Rightarrow> int option" where
  "digit_value =
     map_of [(CHR ''0'', 0), (CHR ''1'', 1), (CHR ''2'', 2), (CHR ''3'', 3), (CHR ''4'', 4),
             (CHR ''5'', 5), (CHR ''6'', 6), (CHR ''7'', 7), (CHR ''8'', 8), (CHR ''9'', 9)]"

fun read_digits :: "int \<Rightarrow> string \<Rightarrow> int" where
  "read_digits acc [] = acc"
| "read_digits acc (c # cs) =
     (case digit_value c of
        Some d \<Rightarrow> read_digits (10 * acc + d) cs
      | None \<Rightarrow> acc)"

definition parseInt :: "string \<Rightarrow> number" where
  "parseInt inputString =
     (let trimmed = dropWhile is_white_space inputString;
          negative = (case trimmed of c # cs \<Rightarrow> c = CHR ''-'' | [] \<Rightarrow> False);
          unsigned =
            (case trimmed of
               c # cs \<Rightarrow> if c = CHR ''+'' \<or> c = CHR ''-'' then cs else trimmed
             | [] \<Rightarrow> trimmed)
      in case unsigned of
           [] \<Rightarrow> NaN
         | c # cs \<Rightarrow>
             if digit_value c = None then NaN
             else
               (let mathInt = read_digits 0 unsigned;
                    magnitude = \<lfloor>round_double (of_int mathInt)\<rfloor>
                in Num (if negative then - magnitude else magnitude)))"

subsection \<open>The UTXO lock registry (\<open>utxoLockService.ts\<close>)\<close>

datatype lock_type = creating_vault | creating_savings

record LockedUTXO =
  utxoId :: string
  lockedAt :: int
  lockType :: lock_type
  expiresAt :: int

text \<open>
  The registry is the array stored under one local-storage key; \<open>load\<close> and \<open>save\<close>
  are taken to succeed, so the registry is the list itself. Each operation returns the
  registry it leaves behind together with what it printed: \<open>Warn\<close> for
  \<open>console.warn\<close>, \<open>Log\<close> for \<open>console.log\<close>.
\<close>

datatype console = Log | Warn

definition LOCK_TIMEOUT :: int where
  "LOCK_TIMEOUT = 15 * 60 * 1000"

definition lockUTXO ::
  "int \<Rightarrow> string \<Rightarrow> lock_type \<Rightarrow> LockedUTXO list \<Rightarrow> LockedUTXO list \<times> console" where
  "lockUTXO now uid ty lockedUTXOs =
     (case find (\<lambda>u. utxoId u = uid) lockedUTXOs of
        Some existing \<Rightarrow> (lockedUTXOs, Warn)
      | None \<Rightarrow>
          (lockedUTXOs @
             [\<lparr>utxoId = uid, lockedAt = now, lockType = ty,
               expiresAt = now + LOCK_TIMEOUT\<rparr>], Log))"

definition unlockUTXO :: "string \<Rightarrow> LockedUTXO list \<Rightarrow> LockedUTXO list \<times> console" where
  "unlockUTXO uid lockedUTXOs =
     (let filtered = filter (\<lambda>u. utxoId u \<noteq> uid) lockedUTXOs
      in if length filtered = length lockedUTXOs then (lockedUTXOs, Warn)
         else (filtered, Log))"

definition isLocked :: "int \<Rightarrow> string \<Rightarrow> LockedUTXO list \<Rightarrow> bool \<times> LockedUTXO list" where
  "isLocked now uid lockedUTXOs =
     (case find (\<lambda>u. utxoId u = uid) lockedUTXOs of
        None \<Rightarrow> (False, lockedUTXOs)
      | Some lock \<Rightarrow>
          if now \<ge> expiresAt lock then (False, fst (unlockUTXO uid lockedUTXOs))
          else (True, lockedUTXOs))"

definition clearExpiredLocks :: "int \<Rightarrow> LockedUTXO list \<Rightarrow> LockedUTXO list" where
  "clearExpiredLocks now lockedUTXOs =
     (let activeLocks = filter (\<lambda>lock. \<not> now \<ge> expiresAt lock) lockedUTXOs
      in if length activeLocks < length lockedUTXOs then activeLocks else lockedUTXOs)"

text \<open>The records the registry holds for one id.\<close>

definition records_for :: "string \<Rightarrow> LockedUTXO list \<Rightarrow> LockedUTXO list" where
  "records_for uid lockedUTXOs = filter (\<lambda>u. utxoId u = uid) lockedUTXOs"

subsection \<open>Data model (\<open>types/charms.ts\<close>)\<close>

record UTXO =
  txid :: string
  vout :: number
  utxo_value :: int
  scriptPubKey :: string
  utxo_address :: "string option"

record WalletState =
  connected :: bool
  wallet_address :: string
  publicKey :: string
  balance :: int
  utxos :: "UTXO list"

record Beneficiary =
  address :: string
  percentage :: int

datatype InheritanceStatus = Active | Triggered | Distributed

record InheritanceContent =
  owner_pubkey :: string
  last_checkin_block :: int
  trigger_delay_blocks :: int
  beneficiaries :: "Beneficiary list"
  status :: InheritanceStatus

text \<open>
  An optional \<open>charms\<close> object is an optional association list: \<open>None\<close> is an absent
  property, \<open>Some []\<close> the empty object \<open>{}\<close>.
\<close>

record SpellInput =
  utxo_id :: string
  in_charms :: "(string \<times> InheritanceContent) list option"

record SpellOutput =
  out_address :: string
  sats :: int
  out_charms :: "(string \<times> InheritanceContent) list option"

record SpellJSON =
  version :: int
  apps :: "(string \<times> string) list"
  ins :: "SpellInput list"
  outs :: "SpellOutput list"
  private_inputs :: "(string \<times> string) list option"

record ProverRequest =
  spell :: SpellJSON
  binaries :: "(string \<times> string) list"
  prev_txs :: "string list"
  funding_utxo :: string
  funding_utxo_value :: int
  change_address :: string
  fee_rate :: int
  chain :: string

datatype tx_type = create | checkin_tx | update | distribute_tx

record VaultTransaction =
  tx_txid :: string
  tx_kind :: tx_type
  timestamp :: string
  blockHeight :: int
  confirmations :: int

text \<open>
  The cached vault record. \<open>lockedBTC\<close> is the value of a double, which is a rational.
\<close>

record Vault =
  vault_id :: string
  vault_type :: string
  vault_status :: InheritanceStatus
  lockedBTC :: rat
  unlockDate :: string
  unlockBlock :: int
  createdAt :: string
  createdBlock :: int
  vault_beneficiaries :: "Beneficiary list"
  ownerPubkey :: string
  triggerDelayBlocks :: int
  transactions :: "VaultTransaction list"

record failure =
  fail_count :: int
  lastFailed :: int

definition format_utxo_id :: "string \<Rightarrow> number \<Rightarrow> string" where
  "format_utxo_id t v = t @ '':'' @ show_number v"

subsection \<open>The funding selector (\<open>selectFundingUTXO\<close> of \<open>vaultService.ts\<close>)\<close>

definition FAILURE_COOLDOWN :: int where
  "FAILURE_COOLDOWN = 5 * 60 * 1000"

text \<open>
  The callback of \<open>utxos.filter\<close>: it answers for one UTXO and returns the registry,
  which \<open>isLocked\<close> may have changed. The selector and the registry read the same clock
  value \<open>now\<close>.
\<close>

definition suitable ::
  "int \<Rightarrow> (string \<rightharpoonup> failure) \<Rightarrow> int \<Rightarrow> UTXO \<Rightarrow> LockedUTXO list \<Rightarrow> bool \<times> LockedUTXO list" where
  "suitable now failed requiredAmount utxo ls =
     (if utxo_value utxo < requiredAmount then (False, ls)
      else
        (case isLocked now (format_utxo_id (txid utxo) (vout utxo)) ls of
           (True, ls') \<Rightarrow> (False, ls')
         | (False, ls') \<Rightarrow>
             (case failed (format_utxo_id (txid utxo) (vout utxo)) of
                Some f \<Rightarrow>
                  if now - lastFailed f < FAILURE_COOLDOWN then (False, ls') else (True, ls')
              | None \<Rightarrow> (True, ls'))))"

fun filter_suitable ::
  "int \<Rightarrow> (string \<rightharpoonup> failure) \<Rightarrow> int \<Rightarrow> UTXO list \<Rightarrow> LockedUTXO list \<Rightarrow>
   UTXO list \<times> LockedUTXO list" where
  "filter_suitable now failed requiredAmount [] ls = ([], ls)"
| "filter_suitable now failed requiredAmount (utxo # rest) ls =
     (case suitable now failed requiredAmount utxo ls of
        (keep, ls') \<Rightarrow>
          (case filter_suitable now failed requiredAmount rest ls' of
             (kept, ls'') \<Rightarrow> (if keep then utxo # kept else kept, ls'')))"

text \<open>
  \<open>Array.prototype.sort\<close> with the comparator \<open>a.value - b.value\<close> is a stable
  ascending sort on the value, which \<open>sort_key\<close> is.
\<close>

definition selectFundingUTXO ::
  "int \<Rightarrow> (string \<rightharpoonup> failure) \<Rightarrow> UTXO list \<Rightarrow> int \<Rightarrow> LockedUTXO list \<Rightarrow>
   UTXO option \<times> LockedUTXO list" where
  "selectFundingUTXO now failed candidates requiredAmount ls =
     (case filter_suitable now failed requiredAmount candidates (clearExpiredLocks now ls) of
        (kept, ls') \<Rightarrow>
          (case sort_key utxo_value kept of
             [] \<Rightarrow> (None, ls')
           | u # _ \<Rightarrow> (Some u, ls')))"

text \<open>
  What the selector excludes: a UTXO with a lock record that has not expired, and a UTXO
  that failed less than five minutes ago.
\<close>

definition locked_now :: "int \<Rightarrow> LockedUTXO list \<Rightarrow> string \<Rightarrow> bool" where
  "locked_now now ls uid = list_ex (\<lambda>l. utxoId l = uid \<and> now < expiresAt l) ls"

definition cooling_down :: "int \<Rightarrow> (string \<rightharpoonup> failure) \<Rightarrow> string \<Rightarrow> bool" where
  "cooling_down now failed uid =
     (case failed uid of Some f \<Rightarrow> now - lastFailed f < 5 * 60 * 1000 | None \<Rightarrow> False)"

definition eligible ::
  "int \<Rightarrow> (string \<rightharpoonup> failure) \<Rightarrow> LockedUTXO list \<Rightarrow> int \<Rightarrow> UTXO \<Rightarrow> bool" where
  "eligible now failed ls requiredAmount u =
     (utxo_value u \<ge> requiredAmount
      \<and> \<not> locked_now now ls (format_utxo_id (txid u) (vout u))
      \<and> \<not> cooling_down now failed (format_utxo_id (txid u) (vout u)))"

subsection \<open>The transaction format converter (\<open>extractTxFromPsbt\<close> of \<open>psbtHelper.ts\<close>)\<close>

text \<open>
  A PSBT is the list of its inputs and the rest of its content, which the function does not
  touch. Of an input, the fields the function reads or writes are modelled. The methods of
  bitcoinjs-lib are parameters: parsing, \<open>finalizeAllInputs\<close> (which answers with the
  error it threw, if any, and the PSBT it leaves), \<open>finalizeInput\<close> for one input (a
  function of the untouched part, the index and the input) and \<open>extractTransaction\<close>.
  A \<open>Buffer\<close> is a list of bytes; \<open>Buffer.from([n])\<close> keeps \<open>n\<close> modulo 256.
\<close>

datatype network = testnet | mainnet

type_synonym byte = "8 word"

record PartialSig =
  pubkey :: "byte list"
  signature :: "byte list"

record PsbtInput =
  finalScriptWitness :: "byte list option"
  finalScriptSig :: "byte list option"
  tapKeySig :: "byte list option"
  partialSig :: "PartialSig list"
  input_rest :: string

record Psbt =
  inputs :: "PsbtInput list"
  psbt_rest :: string

record bitcoinjs =
  psbt_fromHex :: "string \<Rightarrow> network \<Rightarrow> error + Psbt"
  finalizeAllInputs :: "Psbt \<Rightarrow> error option \<times> Psbt"
  finalizeInput :: "string \<Rightarrow> nat \<Rightarrow> PsbtInput \<Rightarrow> error + PsbtInput"
  extractTransaction :: "Psbt \<Rightarrow> error + string"

text \<open>The innermost \<open>catch\<close> block: the witness built by hand for input \<open>i\<close>.\<close>

definition manual_witness :: "nat \<Rightarrow> PsbtInput \<Rightarrow> error + PsbtInput" where
  "manual_witness i input =
     (case tapKeySig input of
        Some sig \<Rightarrow>
          Inr (input\<lparr>finalScriptWitness :=
                 Some ([0x01] @ [of_nat (length sig)] @ sig)\<rparr>)
      | None \<Rightarrow>
          (case partialSig input of
             p # _ \<Rightarrow>
               Inr (input\<lparr>finalScriptWitness :=
                      Some ([0x02] @ [of_nat (length (signature p))] @ signature p
                            @ [of_nat (length (pubkey p))] @ pubkey p)\<rparr>)
           | [] \<Rightarrow>
               Inl (Error (''Unable to finalize input '' @ show_nat i
                           @ '': no signature found''))))"

text \<open>The body of the \<open>for\<close> loop for input \<open>i\<close>, and the loop from index \<open>i\<close> on.\<close>

definition finalize_one :: "bitcoinjs \<Rightarrow> string \<Rightarrow> nat \<Rightarrow> PsbtInput \<Rightarrow> error + PsbtInput" where
  "finalize_one lib rest i input =
     (if finalScriptWitness input \<noteq> None \<or> finalScriptSig input \<noteq> None then Inr input
      else
        (case finalizeInput lib rest i input of
           Inr finalized \<Rightarrow> Inr finalized
         | Inl finalizeError \<Rightarrow> manual_witness i input))"

fun finalize_from ::
  "bitcoinjs \<Rightarrow> string \<Rightarrow> nat \<Rightarrow> PsbtInput list \<Rightarrow> error + PsbtInput list" where
  "finalize_from lib rest i [] = Inr []"
| "finalize_from lib rest i (input # others) =
     (case finalize_one lib rest i input of
        Inl e \<Rightarrow> Inl e
      | Inr input' \<Rightarrow>
          (case finalize_from lib rest (Suc i) others of
             Inl e \<Rightarrow> Inl e
           | Inr others' \<Rightarrow> Inr (input' # others')))"

definition extractTxFromPsbt :: "bitcoinjs \<Rightarrow> string \<Rightarrow> network \<Rightarrow> error + string" where
  "extractTxFromPsbt lib signedPsbtHex net =
     (case psbt_fromHex lib signedPsbtHex net of
        Inl e \<Rightarrow> Inl e
      | Inr psbt \<Rightarrow>
          (case finalizeAllInputs lib psbt of
             (None, finalized) \<Rightarrow> extractTransaction lib finalized
           | (Some err, psbt1) \<Rightarrow>
               (case finalize_from lib (psbt_rest psbt1) 0 (inputs psbt1) of
                  Inl e \<Rightarrow> Inl e
                | Inr inputs2 \<Rightarrow> extractTransaction lib (psbt1\<lparr>inputs := inputs2\<rparr>))))"

subsection \<open>External collaborators\<close>

text \<open>
  Everything outside the repository is an oracle: the clock, the two wallet extensions,
  the block explorer, the Web Crypto digest, the prover, the node's package submission
  (indexed by the number of earlier submissions of the operation, so a resubmission may
  be answered differently), bitcoinjs-lib and \<open>convertRawTxToPsbt\<close>, which only calls
  into that library. An oracle
  answers \<open>Inl e\<close> when the call throws \<open>e\<close>. \<open>iso_string\<close> is the text of a valid
  time value.
\<close>

record env =
  date_now :: int
  iso_string :: "int \<Rightarrow> string"
  leather_state :: "WalletState option"
  unisat_state :: "WalletState option"
  leather_sign :: "string \<Rightarrow> error + string"
  unisat_sign :: "string \<Rightarrow> error + string"
  block_height :: "error + int"
  fee_estimates :: "error + int"
  raw_transaction :: "string \<Rightarrow> error + string"
  sha256_hex :: "string \<Rightarrow> error + string"
  app_vk :: string
  fetch_wasm :: "error + string"
  prove :: "ProverRequest \<Rightarrow> error + string \<times> string"
  submit_package :: "nat \<Rightarrow> string \<Rightarrow> string \<Rightarrow> error + string"
  tx_from_hex :: "string \<Rightarrow> error + unit"
  raw_to_psbt :: "string \<Rightarrow> string \<Rightarrow> number \<Rightarrow> network \<Rightarrow> error + string"
  bitcoin_lib :: bitcoinjs
  bitcoin_network :: network

subsection \<open>The spell assembler (\<open>spellBuilder.ts\<close>)\<close>

definition calculateAppId :: "env \<Rightarrow> string \<Rightarrow> error + string" where
  "calculateAppId env fundingUtxo =
     (case sha256_hex env fundingUtxo of
        Inl e \<Rightarrow> Inl (CharmVaultError (''Failed to calculate app ID: '' @ message e) ''PROVER_ERROR'')
      | Inr hashHex \<Rightarrow> Inr hashHex)"

definition buildAppReference :: "env \<Rightarrow> string \<Rightarrow> error + string" where
  "buildAppReference env fundingUtxo =
     (case calculateAppId env fundingUtxo of
        Inl e \<Rightarrow> Inl e
      | Inr appId \<Rightarrow> Inr (''n/'' @ appId @ ''/'' @ app_vk env))"

definition buildCreateVaultSpell ::
  "env \<Rightarrow> int \<Rightarrow> UTXO \<Rightarrow> string \<Rightarrow> Beneficiary list \<Rightarrow> int \<Rightarrow> string \<Rightarrow> error + SpellJSON" where
  "buildCreateVaultSpell env amount fundingUTXO ownerKey bs delay changeAddress =
     (let fundingUtxoId = format_utxo_id (txid fundingUTXO) (vout fundingUTXO)
      in case buildAppReference env fundingUtxoId of
           Inl e \<Rightarrow> Inl e
         | Inr appRef \<Rightarrow>
             (let inheritanceContent =
                    \<lparr>owner_pubkey = ownerKey, last_checkin_block = 0,
                     trigger_delay_blocks = delay, beneficiaries = bs, status = Active\<rparr>
              in Inr \<lparr>version = 8, apps = [(''$00'', appRef)],
                      ins = [\<lparr>utxo_id = fundingUtxoId, in_charms = Some []\<rparr>],
                      outs = [\<lparr>out_address = changeAddress, sats = amount,
                               out_charms = Some [(''$00'', inheritanceContent)]\<rparr>],
                      private_inputs = Some [(''$00'', fundingUtxoId)]\<rparr>))"

definition buildCheckinSpell ::
  "env \<Rightarrow> UTXO \<Rightarrow> InheritanceContent \<Rightarrow> string \<Rightarrow> int \<Rightarrow> string \<Rightarrow> error + SpellJSON" where
  "buildCheckinSpell env vaultUTXO vaultCharm ownerKey currentBlock changeAddress =
     (let fundingUtxoId = format_utxo_id (txid vaultUTXO) (vout vaultUTXO)
      in case calculateAppId env fundingUtxoId of
           Inl e \<Rightarrow> Inl e
         | Inr appId \<Rightarrow>
             (let appRef = ''n/'' @ appId @ ''/'' @ app_vk env;
                  updatedCharm =
                    vaultCharm\<lparr>last_checkin_block := currentBlock, owner_pubkey := ownerKey\<rparr>
              in Inr \<lparr>version = 8, apps = [(''$00'', appRef)],
                      ins = [\<lparr>utxo_id = fundingUtxoId,
                              in_charms = Some [(''$00'', vaultCharm)]\<rparr>],
                      outs = [\<lparr>out_address = changeAddress,
                               sats = js_minus (utxo_value vaultUTXO) 2000,
                               out_charms = Some [(''$00'', updatedCharm)]\<rparr>],
                      private_inputs = None\<rparr>))"

definition buildUpdateBeneficiariesSpell ::
  "env \<Rightarrow> UTXO \<Rightarrow> InheritanceContent \<Rightarrow> Beneficiary list \<Rightarrow> string \<Rightarrow> int \<Rightarrow> string \<Rightarrow>
   error + SpellJSON" where
  "buildUpdateBeneficiariesSpell env vaultUTXO vaultCharm newBeneficiaries ownerKey
       currentBlock changeAddress =
     (let fundingUtxoId = format_utxo_id (txid vaultUTXO) (vout vaultUTXO)
      in case calculateAppId env fundingUtxoId of
           Inl e \<Rightarrow> Inl e
         | Inr appId \<Rightarrow>
             (let appRef = ''n/'' @ appId @ ''/'' @ app_vk env;
                  updatedCharm =
                    vaultCharm\<lparr>beneficiaries := newBeneficiaries,
                      last_checkin_block := currentBlock, owner_pubkey := ownerKey\<rparr>
              in Inr \<lparr>version = 8, apps = [(''$00'', appRef)],
                      ins = [\<lparr>utxo_id = fundingUtxoId,
                              in_charms = Some [(''$00'', vaultCharm)]\<rparr>],
                      outs = [\<lparr>out_address = changeAddress,
                               sats = js_minus (utxo_value vaultUTXO) 2000,
                               out_charms = Some [(''$00'', updatedCharm)]\<rparr>],
                      private_inputs = None\<rparr>))"

text \<open>
  The callback of \<open>beneficiaries.map\<close>. The product \<open>totalValue * percentage\<close> and the
  quotient by 100 are each rounded to a double before \<open>Math.floor\<close> is taken.
\<close>

definition distribution_output :: "int \<Rightarrow> Beneficiary \<Rightarrow> SpellOutput" where
  "distribution_output totalValue beneficiary =
     (let amount =
            \<lfloor>round_double
               (round_double (of_int totalValue * of_int (percentage beneficiary)) / 100)\<rfloor>
      in \<lparr>out_address = address beneficiary, sats = amount, out_charms = None\<rparr>)"

definition buildDistributeSpell ::
  "env \<Rightarrow> UTXO \<Rightarrow> InheritanceContent \<Rightarrow> int \<Rightarrow> error + SpellJSON" where
  "buildDistributeSpell env vaultUTXO vaultCharm currentBlock =
     (let fundingUtxoId = format_utxo_id (txid vaultUTXO) (vout vaultUTXO)
      in case calculateAppId env fundingUtxoId of
           Inl e \<Rightarrow> Inl e
         | Inr appId \<Rightarrow>
             (let appRef = ''n/'' @ appId @ ''/'' @ app_vk env;
                  deadline = last_checkin_block vaultCharm + trigger_delay_blocks vaultCharm
              in if currentBlock \<le> deadline then
                   Inl (Error (''Deadline not reached. Current block: '' @ show_int currentBlock
                                @ '', Deadline: '' @ show_int deadline))
                 else
                   (let estimatedFee = 2000;
                        totalValue = js_minus (utxo_value vaultUTXO) estimatedFee;
                        outputs = map (distribution_output totalValue) (beneficiaries vaultCharm)
                    in Inr \<lparr>version = 8, apps = [(''$00'', appRef)],
                            ins = [\<lparr>utxo_id = fundingUtxoId,
                                    in_charms = Some [(''$00'', vaultCharm)]\<rparr>],
                            outs = outputs,
                            private_inputs = None\<rparr>)))"

definition validateBeneficiaries :: "Beneficiary list \<Rightarrow> bool" where
  "validateBeneficiaries bs =
     (let totalPercentage = foldl (\<lambda>sum b. sum + percentage b) 0 bs
      in totalPercentage = 100)"

subsection \<open>Service state and effects\<close>

text \<open>
  \<open>event\<close> lists what an operation does to the outside, in order: the network requests,
  the wallet prompts, the calls into the lock registry and the writes of a vault record to
  local storage.
\<close>

datatype event =
    GetCurrentBlockHeight
  | GetFeeEstimates
  | GetRawTransaction string
  | FetchWasm
  | ProveSpell ProverRequest
  | SignTransaction string
  | BroadcastPackage string string
  | LockUTXO string
  | UnlockUTXO string
  | SaveVault string

fun is_network_call :: "event \<Rightarrow> bool" where
  "is_network_call GetCurrentBlockHeight = True"
| "is_network_call GetFeeEstimates = True"
| "is_network_call (GetRawTransaction t) = True"
| "is_network_call FetchWasm = True"
| "is_network_call (ProveSpell r) = True"
| "is_network_call (BroadcastPackage c sp) = True"
| "is_network_call (SignTransaction h) = False"
| "is_network_call (LockUTXO u) = False"
| "is_network_call (UnlockUTXO u) = False"
| "is_network_call (SaveVault v) = False"

record state =
  locks :: "LockedUTXO list"
  failedUTXOs :: "string \<rightharpoonup> failure"
  vaultsCache :: "string \<rightharpoonup> Vault"
  vaultStorage :: "string \<rightharpoonup> Vault"
  wasmCache :: "string option"
  trace :: "event list"

text \<open>
  An asynchronous method is a function from the state to its outcome (\<open>Inl\<close> a thrown
  error, \<open>Inr\<close> the value) and the state it leaves; \<open>seq\<close> is \<open>await\<close> followed by the
  rest of the block, and it stops at the first throw.
\<close>

type_synonym 'a action = "state \<Rightarrow> (error + 'a) \<times> state"

definition seq :: "'a action \<Rightarrow> ('a \<Rightarrow> 'b action) \<Rightarrow> 'b action" where
  "seq m f s = (case m s of (Inl e, s') \<Rightarrow> (Inl e, s') | (Inr a, s') \<Rightarrow> f a s')"

definition ret :: "'a \<Rightarrow> 'a action" where
  "ret a s = (Inr a, s)"

definition throw :: "error \<Rightarrow> 'a action" where
  "throw e s = (Inl e, s)"

definition lift :: "error + 'a \<Rightarrow> 'a action" where
  "lift r s = (r, s)"

definition call :: "event \<Rightarrow> error + 'a \<Rightarrow> 'a action" where
  "call ev r s = (r, s\<lparr>trace := trace s @ [ev]\<rparr>)"

definition getCurrentBlockHeight :: "env \<Rightarrow> int action" where
  "getCurrentBlockHeight env = call GetCurrentBlockHeight (block_height env)"

text \<open>\<open>getFeeEstimates\<close> falls back to fixed rates when the request fails; only
  \<open>halfHourFee\<close> is read.\<close>

definition getFeeEstimates :: "env \<Rightarrow> int action" where
  "getFeeEstimates env =
     call GetFeeEstimates (Inr (case fee_estimates env of Inl e \<Rightarrow> 5 | Inr f \<Rightarrow> f))"

definition fee_or_default :: "int \<Rightarrow> int" where
  "fee_or_default halfHourFee = (if halfHourFee = 0 then 2 else halfHourFee)"

definition getRawTransaction :: "env \<Rightarrow> string \<Rightarrow> string action" where
  "getRawTransaction env t = call (GetRawTransaction t) (raw_transaction env t)"

definition proveSpell :: "env \<Rightarrow> ProverRequest \<Rightarrow> (string \<times> string) action" where
  "proveSpell env request = call (ProveSpell request) (prove env request)"

definition broadcastPackage :: "env \<Rightarrow> nat \<Rightarrow> string \<Rightarrow> string \<Rightarrow> string action" where
  "broadcastPackage env n commitTxHex spellTxHex =
     call (BroadcastPackage commitTxHex spellTxHex) (submit_package env n commitTxHex spellTxHex)"

definition signTransaction :: "(string \<Rightarrow> error + string) \<Rightarrow> string \<Rightarrow> string action" where
  "signTransaction sign txHex = call (SignTransaction txHex) (sign txHex)"

definition loadContractWasm :: "env \<Rightarrow> string action" where
  "loadContractWasm env s =
     (if wasmCache s \<noteq> None \<and> wasmCache s \<noteq> Some [] then (Inr (the (wasmCache s)), s)
      else
        (case fetch_wasm env of
           Inl e \<Rightarrow>
             (Inl (CharmVaultError (''Failed to load contract WASM: '' @ message e) ''PROVER_ERROR''),
              s\<lparr>trace := trace s @ [FetchWasm]\<rparr>)
         | Inr base64Wasm \<Rightarrow>
             (Inr base64Wasm, s\<lparr>wasmCache := Some base64Wasm, trace := trace s @ [FetchWasm]\<rparr>)))"

definition buildProverRequest ::
  "env \<Rightarrow> SpellJSON \<Rightarrow> string list \<Rightarrow> string \<Rightarrow> int \<Rightarrow> string \<Rightarrow> int \<Rightarrow> ProverRequest action" where
  "buildProverRequest env sp prevTxs fundingUtxo fundingUtxoValue changeAddress feeRate s =
     (case loadContractWasm env s of
        (Inl e, s') \<Rightarrow>
          (Inl (CharmVaultError (''Failed to build prover request: '' @ message e) ''PROVER_ERROR''),
           s')
      | (Inr wasmBase64, s') \<Rightarrow>
          (Inr \<lparr>spell = sp, binaries = [(app_vk env, wasmBase64)], prev_txs = prevTxs,
                funding_utxo = fundingUtxo, funding_utxo_value = fundingUtxoValue,
                change_address = changeAddress, fee_rate = feeRate, chain = ''bitcoin''\<rparr>, s'))"

definition lock_op :: "int \<Rightarrow> string \<Rightarrow> lock_type \<Rightarrow> unit action" where
  "lock_op now uid ty s =
     (Inr (), s\<lparr>locks := fst (lockUTXO now uid ty (locks s)), trace := trace s @ [LockUTXO uid]\<rparr>)"

definition unlock_op :: "string \<Rightarrow> unit action" where
  "unlock_op uid s =
     (Inr (), s\<lparr>locks := fst (unlockUTXO uid (locks s)), trace := trace s @ [UnlockUTXO uid]\<rparr>)"

definition getActiveWallet :: "env \<Rightarrow> (WalletState \<times> (string \<Rightarrow> error + string)) option" where
  "getActiveWallet env =
     (case leather_state env of
        Some leatherState \<Rightarrow> Some (leatherState, leather_sign env)
      | None \<Rightarrow>
          (case unisat_state env of
             Some unisatState \<Rightarrow> Some (unisatState, unisat_sign env)
           | None \<Rightarrow> None))"

text \<open>\<open>Date.prototype.toISOString\<close> throws a \<open>RangeError\<close> outside the range of time
  values.\<close>

definition toISOString :: "env \<Rightarrow> int \<Rightarrow> error + string" where
  "toISOString env t =
     (if - 8640000000000000 \<le> t \<and> t \<le> 8640000000000000 then Inr (iso_string env t)
      else Inl (Error ''Invalid time value''))"

definition calculateUnlockDate :: "env \<Rightarrow> int \<Rightarrow> error + string" where
  "calculateUnlockDate env delayBlocks =
     toISOString env (date_now env + delayBlocks * 10 * 60 * 1000)"

definition saveVaultToStorage :: "Vault \<Rightarrow> unit action" where
  "saveVaultToStorage vault s =
     (Inr (), s\<lparr>vaultStorage := (vaultStorage s)(''vault_'' @ vault_id vault \<mapsto> vault),
                trace := trace s @ [SaveVault (vault_id vault)]\<rparr>)"

definition set_cached :: "string \<Rightarrow> Vault \<Rightarrow> unit action" where
  "set_cached vaultId vault s = (Inr (), s\<lparr>vaultsCache := (vaultsCache s)(vaultId \<mapsto> vault)\<rparr>)"

definition getVault :: "string \<Rightarrow> Vault action" where
  "getVault vaultId s =
     (case vaultsCache s vaultId of
        Some vault \<Rightarrow> (Inr vault, s)
      | None \<Rightarrow>
          (case vaultStorage s (''vault_'' @ vaultId) of
             Some vault \<Rightarrow> (Inr vault, s\<lparr>vaultsCache := (vaultsCache s)(vaultId \<mapsto> vault)\<rparr>)
           | None \<Rightarrow>
               (Inl (CharmVaultError (''Vault '' @ vaultId @ '' not found'') ''VAULT_NOT_FOUND''),
                s)))"

definition markUTXOFailed :: "env \<Rightarrow> UTXO \<Rightarrow> state \<Rightarrow> state" where
  "markUTXOFailed env utxo s =
     (let uid = format_utxo_id (txid utxo) (vout utxo);
          existing = failedUTXOs s uid;
          n = (case existing of Some f \<Rightarrow> fail_count f | None \<Rightarrow> 0)
      in s\<lparr>failedUTXOs :=
             (failedUTXOs s)(uid \<mapsto> \<lparr>fail_count = n + 1, lastFailed = date_now env\<rparr>)\<rparr>)"

text \<open>
  \<open>vaultId.split(':')\<close>, of which the first two parts are read; a missing second part
  is \<open>undefined\<close>, which \<open>parseInt\<close> reads as the text \<open>undefined\<close>. The value of the
  vault UTXO is \<open>Math.floor (vault.lockedBTC * 100000000)\<close>, the floor of a rounded
  product.
\<close>

fun split_colon :: "string \<Rightarrow> string list" where
  "split_colon [] = [[]]"
| "split_colon (c # cs) =
     (if c = CHR '':'' then [] # split_colon cs
      else (case split_colon cs of
              p # ps \<Rightarrow> (c # p) # ps
            | [] \<Rightarrow> [[c]]))"

definition vault_utxo :: "string \<Rightarrow> Vault \<Rightarrow> UTXO" where
  "vault_utxo vaultId vault =
     (let parts = split_colon vaultId;
          t = (case parts of [] \<Rightarrow> ''undefined'' | a # _ \<Rightarrow> a);
          voutStr = (case parts of a # b # _ \<Rightarrow> b | _ \<Rightarrow> ''undefined'')
      in \<lparr>txid = t, vout = parseInt voutStr,
          utxo_value = \<lfloor>round_double (lockedBTC vault * 100000000)\<rfloor>,
          scriptPubKey = [], utxo_address = None\<rparr>)"

definition vault_charm :: "Vault \<Rightarrow> InheritanceContent" where
  "vault_charm vault =
     \<lparr>owner_pubkey = ownerPubkey vault,
      last_checkin_block = createdBlock vault,
      trigger_delay_blocks = triggerDelayBlocks vault,
      beneficiaries = vault_beneficiaries vault,
      status = Active\<rparr>"

subsection \<open>The orchestrator (\<open>vaultService.ts\<close>)\<close>

definition MIN_UTXO_VALUE :: int where
  "MIN_UTXO_VALUE = 3000"

text \<open>The broadcast of \<open>createVault\<close>: a direct submission, and on its failure the
  wallet-signed commit transaction submitted with the spell transaction.\<close>

definition createVault_broadcast ::
  "env \<Rightarrow> (string \<Rightarrow> error + string) \<Rightarrow> UTXO \<Rightarrow> string \<Rightarrow> string \<Rightarrow> string \<Rightarrow> string action" where
  "createVault_broadcast env sign fundingUTXO prevTxHex commitTx spellTx s =
     (case broadcastPackage env 0 commitTx spellTx s of
        (Inr vaultTxid, s') \<Rightarrow> (Inr vaultTxid, s')
      | (Inl broadcastError, s') \<Rightarrow>
          seq (lift (raw_to_psbt env commitTx prevTxHex (vout fundingUTXO) (bitcoin_network env)))
            (\<lambda>commitPsbtHex.
          seq (signTransaction sign commitPsbtHex) (\<lambda>signedCommitPsbt.
          seq (lift (extractTxFromPsbt (bitcoin_lib env) signedCommitPsbt (bitcoin_network env)))
            (\<lambda>signedCommitTx.
          (let signedSpellTx = spellTx
           in broadcastPackage env 1 signedCommitTx signedSpellTx)))) s')"

text \<open>The inner \<open>try\<close> block of \<open>createVault\<close>, entered with the funding UTXO locked.\<close>

definition createVault_locked ::
  "env \<Rightarrow> WalletState \<Rightarrow> (string \<Rightarrow> error + string) \<Rightarrow> int \<Rightarrow> Beneficiary list \<Rightarrow> int \<Rightarrow>
   UTXO \<Rightarrow> string action" where
  "createVault_locked env walletState sign amount bs delay fundingUTXO =
     (let utxoId = format_utxo_id (txid fundingUTXO) (vout fundingUTXO) in
      seq (getCurrentBlockHeight env) (\<lambda>currentBlock.
      seq (getFeeEstimates env) (\<lambda>halfHourFee.
      (let feeRate = fee_or_default halfHourFee in
      seq (lift (buildCreateVaultSpell env amount fundingUTXO (publicKey walletState) bs delay
                   (wallet_address walletState))) (\<lambda>sp.
      seq (getRawTransaction env (txid fundingUTXO)) (\<lambda>prevTxHex.
      seq (buildProverRequest env sp [prevTxHex] utxoId (utxo_value fundingUTXO)
             (wallet_address walletState) feeRate) (\<lambda>proverRequest.
      seq (proveSpell env proverRequest) (\<lambda>(commitTx, spellTxOriginal).
      (let spellTx = spellTxOriginal in
      seq (lift (tx_from_hex env commitTx)) (\<lambda>_.
      seq (lift (tx_from_hex env spellTx)) (\<lambda>_.
      seq (createVault_broadcast env sign fundingUTXO prevTxHex commitTx spellTx) (\<lambda>vaultTxid.
      seq (unlock_op utxoId) (\<lambda>_.
      seq (lift (calculateUnlockDate env delay)) (\<lambda>unlockDateText.
      (let vault =
             \<lparr>vault_id = vaultTxid @ '':0'',
              vault_type = ''Inheritance'',
              vault_status = Active,
              lockedBTC = round_double (of_int amount / 100000000),
              unlockDate = unlockDateText,
              unlockBlock = currentBlock + delay,
              createdAt = iso_string env (date_now env),
              createdBlock = currentBlock,
              vault_beneficiaries = bs,
              ownerPubkey = publicKey walletState,
              triggerDelayBlocks = delay,
              transactions =
                [\<lparr>tx_txid = vaultTxid, tx_kind = create,
                  timestamp = iso_string env (date_now env),
                  blockHeight = currentBlock, confirmations = 0\<rparr>]\<rparr> in
      seq (set_cached (vault_id vault) vault) (\<lambda>_.
      seq (saveVaultToStorage vault) (\<lambda>_.
      ret vaultTxid)))))))))))))))))"

text \<open>
  The outer \<open>try\<close> block of \<open>createVault\<close>. It returns, with the outcome, the value the
  variable \<open>fundingUTXO\<close> has when the block is left, which the \<open>catch\<close> clause reads.
\<close>

definition createVault_try ::
  "env \<Rightarrow> int \<Rightarrow> Beneficiary list \<Rightarrow> int \<Rightarrow> state \<Rightarrow> UTXO option \<times> (error + string) \<times> state" where
  "createVault_try env amount bs delay s0 =
     (if \<not> validateBeneficiaries bs then
        (None, Inl (CharmVaultError ''Beneficiary percentages must sum to exactly 100%''
                      ''VALIDATION_ERROR''), s0)
      else
        (case getActiveWallet env of
           None \<Rightarrow> (None, Inl (CharmVaultError ''Wallet not connected'' ''WALLET_NOT_CONNECTED''), s0)
         | Some (walletState, sign) \<Rightarrow>
             (case selectFundingUTXO (date_now env) (failedUTXOs s0) (utxos walletState) amount
                     (locks s0) of
                (None, ls) \<Rightarrow>
                  (None,
                   Inl (CharmVaultError
                          ''Insufficient funds or all suitable UTXOs are currently locked/cooling down. Please try again in a few minutes.''
                          ''INSUFFICIENT_FUNDS''),
                   s0\<lparr>locks := ls\<rparr>)
              | (Some fundingUTXO, ls) \<Rightarrow>
                  if utxo_value fundingUTXO < MIN_UTXO_VALUE then
                    (Some fundingUTXO,
                     Inl (CharmVaultError
                            (''Funding UTXO too small ('' @ show_int (utxo_value fundingUTXO)
                              @ '' sats). Need at least '' @ show_int MIN_UTXO_VALUE
                              @ '' sats for Charms transaction fees.'')
                            ''INSUFFICIENT_FUNDS''),
                     s0\<lparr>locks := ls\<rparr>)
                  else
                    (let utxoId = format_utxo_id (txid fundingUTXO) (vout fundingUTXO)
                     in case seq (lock_op (date_now env) utxoId creating_vault)
                               (\<lambda>_. createVault_locked env walletState sign amount bs delay
                                      fundingUTXO)
                               (s0\<lparr>locks := ls\<rparr>) of
                          (Inr vaultTxid, s) \<Rightarrow> (Some fundingUTXO, Inr vaultTxid, s)
                        | (Inl innerError, s) \<Rightarrow>
                            (Some fundingUTXO, Inl innerError, snd (unlock_op utxoId s))))))"

definition createVault :: "env \<Rightarrow> int \<Rightarrow> Beneficiary list \<Rightarrow> int \<Rightarrow> string action" where
  "createVault env amount bs delay s0 =
     (case createVault_try env amount bs delay s0 of
        (fundingUTXO, Inr vaultTxid, s) \<Rightarrow> (Inr vaultTxid, s)
      | (fundingUTXO, Inl err, s) \<Rightarrow>
          if str_includes (message err) ''duplicate funding UTXO'' \<and> fundingUTXO \<noteq> None then
            (Inl (CharmVaultError
                    ''This UTXO was already used in a previous request. The app will automatically use a different UTXO on your next attempt. Please try again or refresh your wallet.''
                    ''DUPLICATE_UTXO''),
             markUTXOFailed env (the fundingUTXO) s)
          else if is_CharmVaultError err then (Inl err, s)
          else (Inl (CharmVaultError (''Failed to create vault: '' @ message err)
                       ''CREATE_VAULT_ERROR''), s))"

text \<open>
  The three operations on an existing vault build the vault UTXO and the vault charm with
  the same statements (\<open>vault_utxo\<close> and \<open>vault_charm\<close> above). The vault object they
  mutate is the one the cache holds under \<open>vaultId\<close>, so an assignment to a field of it is
  a write to the cache.
\<close>

definition checkin_try :: "env \<Rightarrow> string \<Rightarrow> string action" where
  "checkin_try env vaultId =
     seq (getVault vaultId) (\<lambda>vault.
     if vault_status vault \<noteq> Active then
       throw (CharmVaultError ''Can only check in on active vaults'' ''INVALID_VAULT_STATUS'')
     else
       (case getActiveWallet env of
          None \<Rightarrow> throw (CharmVaultError ''Wallet not connected'' ''WALLET_NOT_CONNECTED'')
        | Some (walletState, sign) \<Rightarrow>
            (let vaultUTXO = vault_utxo vaultId vault;
                 vaultCharm = vault_charm vault in
             seq (getCurrentBlockHeight env) (\<lambda>currentBlock.
             seq (getFeeEstimates env) (\<lambda>halfHourFee.
             seq (lift (buildCheckinSpell env vaultUTXO vaultCharm (publicKey walletState)
                          currentBlock (wallet_address walletState))) (\<lambda>sp.
             seq (getRawTransaction env (txid vaultUTXO)) (\<lambda>prevTxHex.
             seq (buildProverRequest env sp [prevTxHex] vaultId (utxo_value vaultUTXO)
                    (wallet_address walletState) (fee_or_default halfHourFee)) (\<lambda>proverRequest.
             seq (proveSpell env proverRequest) (\<lambda>(commitTx, spellTx).
             seq (signTransaction sign commitTx) (\<lambda>signedCommitTx.
             seq (signTransaction sign spellTx) (\<lambda>signedSpellTx.
             seq (broadcastPackage env 0 signedCommitTx signedSpellTx) (\<lambda>checkinTxid.
             (let vault1 = vault\<lparr>unlockBlock := currentBlock + triggerDelayBlocks vault\<rparr> in
             seq (set_cached vaultId vault1) (\<lambda>_.
             seq (lift (calculateUnlockDate env (triggerDelayBlocks vault))) (\<lambda>unlockDateText.
             (let vault2 = vault1\<lparr>unlockDate := unlockDateText\<rparr> in
             seq (set_cached vaultId vault2) (\<lambda>_.
             seq (saveVaultToStorage vault2) (\<lambda>_.
             ret checkinTxid))))))))))))))))))"

definition checkin :: "env \<Rightarrow> string \<Rightarrow> string action" where
  "checkin env vaultId s0 =
     (case checkin_try env vaultId s0 of
        (Inr checkinTxid, s) \<Rightarrow> (Inr checkinTxid, s)
      | (Inl err, s) \<Rightarrow>
          if is_CharmVaultError err then (Inl err, s)
          else (Inl (CharmVaultError (''Failed to check in: '' @ message err) ''CHECKIN_ERROR''), s))"

definition updateBeneficiaries_try :: "env \<Rightarrow> string \<Rightarrow> Beneficiary list \<Rightarrow> string action" where
  "updateBeneficiaries_try env vaultId newBeneficiaries =
     (if \<not> validateBeneficiaries newBeneficiaries then
        throw (CharmVaultError ''Beneficiary percentages must sum to exactly 100%''
                 ''VALIDATION_ERROR'')
      else
        seq (getVault vaultId) (\<lambda>vault.
        if vault_status vault \<noteq> Active then
          throw (CharmVaultError ''Can only update beneficiaries on active vaults''
                   ''INVALID_VAULT_STATUS'')
        else
          (case getActiveWallet env of
             None \<Rightarrow> throw (CharmVaultError ''Wallet not connected'' ''WALLET_NOT_CONNECTED'')
           | Some (walletState, sign) \<Rightarrow>
               (let vaultUTXO = vault_utxo vaultId vault;
                    vaultCharm = vault_charm vault in
                seq (getCurrentBlockHeight env) (\<lambda>currentBlock.
                seq (getFeeEstimates env) (\<lambda>halfHourFee.
                seq (lift (buildUpdateBeneficiariesSpell env vaultUTXO vaultCharm newBeneficiaries
                             (publicKey walletState) currentBlock (wallet_address walletState)))
                  (\<lambda>sp.
                seq (getRawTransaction env (txid vaultUTXO)) (\<lambda>prevTxHex.
                seq (buildProverRequest env sp [prevTxHex] vaultId (utxo_value vaultUTXO)
                       (wallet_address walletState) (fee_or_default halfHourFee))
                  (\<lambda>proverRequest.
                seq (proveSpell env proverRequest) (\<lambda>(commitTx, spellTx).
                seq (signTransaction sign commitTx) (\<lambda>signedCommitTx.
                seq (signTransaction sign spellTx) (\<lambda>signedSpellTx.
                seq (broadcastPackage env 0 signedCommitTx signedSpellTx) (\<lambda>newTxid.
                (let vault1 = vault\<lparr>vault_beneficiaries := newBeneficiaries\<rparr>;
                     vault2 = vault1\<lparr>unlockBlock := currentBlock + triggerDelayBlocks vault\<rparr> in
                seq (set_cached vaultId vault2) (\<lambda>_.
                seq (lift (calculateUnlockDate env (triggerDelayBlocks vault))) (\<lambda>unlockDateText.
                (let vault3 = vault2\<lparr>unlockDate := unlockDateText\<rparr> in
                seq (set_cached vaultId vault3) (\<lambda>_.
                seq (saveVaultToStorage vault3) (\<lambda>_.
                ret newTxid)))))))))))))))))))"

definition updateBeneficiaries :: "env \<Rightarrow> string \<Rightarrow> Beneficiary list \<Rightarrow> string action" where
  "updateBeneficiaries env vaultId newBeneficiaries s0 =
     (case updateBeneficiaries_try env vaultId newBeneficiaries s0 of
        (Inr newTxid, s) \<Rightarrow> (Inr newTxid, s)
      | (Inl err, s) \<Rightarrow>
          if is_CharmVaultError err then (Inl err, s)
          else (Inl (CharmVaultError (''Failed to update beneficiaries: '' @ message err)
                       ''UPDATE_ERROR''), s))"

definition distribute_try :: "env \<Rightarrow> string \<Rightarrow> string action" where
  "distribute_try env vaultId =
     seq (getVault vaultId) (\<lambda>vault.
     seq (getCurrentBlockHeight env) (\<lambda>currentBlock.
     if currentBlock \<le> unlockBlock vault then
       throw (CharmVaultError
                (''Vault cannot be distributed yet. Unlock block: '' @ show_int (unlockBlock vault)
                  @ '', Current block: '' @ show_int currentBlock)
                ''VAULT_LOCKED'')
     else
       (let vaultUTXO = vault_utxo vaultId vault;
            vaultCharm = vault_charm vault in
        seq (getFeeEstimates env) (\<lambda>halfHourFee.
        seq (lift (buildDistributeSpell env vaultUTXO vaultCharm currentBlock)) (\<lambda>sp.
        seq (getRawTransaction env (txid vaultUTXO)) (\<lambda>prevTxHex.
        seq (lift (case vault_beneficiaries vault of
                     [] \<Rightarrow> Inl (Error ''Cannot read properties of undefined'')
                   | b # _ \<Rightarrow> Inr (address b))) (\<lambda>changeAddress.
        seq (buildProverRequest env sp [prevTxHex] vaultId (utxo_value vaultUTXO) changeAddress
               (fee_or_default halfHourFee)) (\<lambda>proverRequest.
        seq (proveSpell env proverRequest) (\<lambda>(commitTx, spellTx).
        (case getActiveWallet env of
           None \<Rightarrow> throw (CharmVaultError ''Wallet not connected'' ''WALLET_NOT_CONNECTED'')
         | Some (walletState, sign) \<Rightarrow>
             seq (signTransaction sign commitTx) (\<lambda>signedCommitTx.
             seq (signTransaction sign spellTx) (\<lambda>signedSpellTx.
             seq (broadcastPackage env 0 signedCommitTx signedSpellTx) (\<lambda>distributeTxid.
             (let vault1 = vault\<lparr>vault_status := Distributed\<rparr> in
             seq (set_cached vaultId vault1) (\<lambda>_.
             seq (saveVaultToStorage vault1) (\<lambda>_.
             ret distributeTxid))))))))))))))))"

definition distribute :: "env \<Rightarrow> string \<Rightarrow> string action" where
  "distribute env vaultId s0 =
     (case distribute_try env vaultId s0 of
        (Inr distributeTxid, s) \<Rightarrow> (Inr distributeTxid, s)
      | (Inl err, s) \<Rightarrow>
          if is_CharmVaultError err then (Inl err, s)
          else (Inl (CharmVaultError (''Failed to distribute vault: '' @ message err)
                       ''DISTRIBUTE_ERROR''), s))"

subsection \<open>Reading a trace\<close>

text \<open>
  What an operation added to the trace, and projections of a trace: the package
  submissions \<open>(commit, spell)\<close>, the transaction pairs the prover answered with, the
  charm of every input sent to the prover, and the events of the lock registry and of the
  vault store.
\<close>

definition new_events :: "state \<Rightarrow> state \<Rightarrow> event list" where
  "new_events s s' = drop (length (trace s)) (trace s')"

fun broadcast_calls :: "event list \<Rightarrow> (string \<times> string) list" where
  "broadcast_calls [] = []"
| "broadcast_calls (BroadcastPackage c sp # evs) = (c, sp) # broadcast_calls evs"
| "broadcast_calls (ev # evs) = broadcast_calls evs"

fun prover_outputs :: "env \<Rightarrow> event list \<Rightarrow> (string \<times> string) list" where
  "prover_outputs env [] = []"
| "prover_outputs env (ProveSpell req # evs) =
     (case prove env req of
        Inr txs \<Rightarrow> txs # prover_outputs env evs
      | Inl e \<Rightarrow> prover_outputs env evs)"
| "prover_outputs env (ev # evs) = prover_outputs env evs"

definition request_input_charms :: "ProverRequest \<Rightarrow> InheritanceContent list" where
  "request_input_charms req =
     concat (map (\<lambda>i. case in_charms i of
                         None \<Rightarrow> []
                       | Some cs \<Rightarrow> map snd cs)
                 (ins (spell req)))"

fun input_charms :: "event list \<Rightarrow> InheritanceContent list" where
  "input_charms [] = []"
| "input_charms (ProveSpell req # evs) = request_input_charms req @ input_charms evs"
| "input_charms (ev # evs) = input_charms evs"

text \<open>
  An operation presents a charm when every input charm it sends to the prover is that
  charm and, if the operation succeeds, it has sent exactly one. It keeps the
  \<open>createdBlock\<close> of a vault record when the record that \<open>getVault\<close> finds afterwards,
  which a successful operation has also written to local storage, and every record the
  operation has written to local storage have that \<open>createdBlock\<close>. The prover is
  reachable for a vault UTXO when the block height, the digest of the UTXO id, the
  previous transaction and the contract binary are delivered.
\<close>

definition presents_charm ::
  "InheritanceContent \<Rightarrow> state \<Rightarrow> (error + string) \<times> state \<Rightarrow> bool" where
  "presents_charm charm s outcome =
     (set (input_charms (new_events s (snd outcome))) \<subseteq> {charm}
      \<and> (\<not> isl (fst outcome) \<longrightarrow> input_charms (new_events s (snd outcome)) = [charm]))"

definition keeps_createdBlock ::
  "string \<Rightarrow> Vault \<Rightarrow> state \<Rightarrow> (error + string) \<times> state \<Rightarrow> bool" where
  "keeps_createdBlock vaultId vault s outcome =
     ((\<exists>v' s2. getVault vaultId (snd outcome) = (Inr v', s2)
          \<and> createdBlock v' = createdBlock vault
          \<and> (\<not> isl (fst outcome) \<longrightarrow>
                 vaultStorage (snd outcome) (''vault_'' @ vault_id vault) = Some v'))
      \<and> (\<forall>k. vaultStorage (snd outcome) k \<noteq> vaultStorage s k \<longrightarrow>
             (\<exists>v'. vaultStorage (snd outcome) k = Some v'
                   \<and> createdBlock v' = createdBlock vault)))"

definition prover_reachable :: "env \<Rightarrow> UTXO \<Rightarrow> bool" where
  "prover_reachable env vaultUTXO =
     (\<not> isl (block_height env)
      \<and> \<not> isl (sha256_hex env (format_utxo_id (txid vaultUTXO) (vout vaultUTXO)))
      \<and> \<not> isl (raw_transaction env (txid vaultUTXO))
      \<and> \<not> isl (fetch_wasm env))"

fun store_events :: "event list \<Rightarrow> event list" where
  "store_events [] = []"
| "store_events (LockUTXO u # evs) = LockUTXO u # store_events evs"
| "store_events (UnlockUTXO u # evs) = UnlockUTXO u # store_events evs"
| "store_events (SaveVault v # evs) = SaveVault v # store_events evs"
| "store_events (ev # evs) = store_events evs"

text \<open>
  The serialisation of a witness stack: the number of elements, then each element behind
  its length. An input has no witness data when it is not finalized, standard
  finalization fails on it and it carries neither a Taproot key signature nor a partial
  signature.
\<close>

definition witness_stack :: "byte list list \<Rightarrow> byte list" where
  "witness_stack elems =
     of_nat (length elems) # concat (map (\<lambda>e. of_nat (length e) # e) elems)"

definition no_witness_data :: "bitcoinjs \<Rightarrow> string \<Rightarrow> nat \<Rightarrow> PsbtInput \<Rightarrow> bool" where
  "no_witness_data lib rest i input =
     (finalScriptWitness input = None \<and> finalScriptSig input = None
      \<and> isl (finalizeInput lib rest i input)
      \<and> tapKeySig input = None \<and> partialSig input = [])"

subsection \<open>Example inputs\<close>

definition utxo_A :: UTXO where
  "utxo_A = \<lparr>txid = ''A'', vout = Num 0, utxo_value = 5000, scriptPubKey = [], utxo_address = None\<rparr>"

definition utxo_B :: UTXO where
  "utxo_B = \<lparr>txid = ''B'', vout = Num 1, utxo_value = 10000, scriptPubKey = [], utxo_address = None\<rparr>"

definition example_wallet :: WalletState where
  "example_wallet =
     \<lparr>connected = True, wallet_address = ''tb1qowner'', publicKey = ''02aa'', balance = 15000,
      utxos = [utxo_A, utxo_B]\<rparr>"

definition taproot_input :: PsbtInput where
  "taproot_input =
     \<lparr>finalScriptWitness = None, finalScriptSig = None, tapKeySig = Some [0xAA, 0xBB],
      partialSig = [], input_rest = []\<rparr>"

definition segwit_input :: PsbtInput where
  "segwit_input =
     \<lparr>finalScriptWitness = None, finalScriptSig = None, tapKeySig = None,
      partialSig = [\<lparr>pubkey = [0x02, 0x03, 0x04], signature = [0x30, 0x44]\<rparr>],
      input_rest = []\<rparr>"

definition finalized_input :: PsbtInput where
  "finalized_input =
     \<lparr>finalScriptWitness = Some [0x01, 0x01, 0xCC], finalScriptSig = None, tapKeySig = None,
      partialSig = [], input_rest = []\<rparr>"

definition unsigned_input :: PsbtInput where
  "unsigned_input =
     \<lparr>finalScriptWitness = None, finalScriptSig = None, tapKeySig = None,
      partialSig = [], input_rest = []\<rparr>"

text \<open>
  A library whose standard finalization fails on every input. It parses the hex text
  \<open>bad\<close> as a PSBT with an unsigned second input and every other text as a PSBT with a
  Taproot, a segwit and a finalized input, and it extracts the text behind the 8-character
  PSBT prefix.
\<close>

definition example_lib :: bitcoinjs where
  "example_lib =
     \<lparr>psbt_fromHex =
        (\<lambda>h n. Inr \<lparr>inputs = (if h = ''bad'' then [taproot_input, unsigned_input]
                                else [taproot_input, segwit_input, finalized_input]),
                     psbt_rest = h\<rparr>),
      finalizeAllInputs = (\<lambda>p. (Some (Error ''Can not finalize input #0''), p)),
      finalizeInput = (\<lambda>r i input. Inl (Error ''Can not finalize input'')),
      extractTransaction = (\<lambda>p. Inr (drop 8 (psbt_rest p)))\<rparr>"

text \<open>
  An environment in which every collaborator answers; its wallet signs by appending
  \<open>ff\<close> to what it is given, and the prover answers every request with the commit
  transaction \<open>c0\<close> and the spell transaction \<open>5e\<close>.
\<close>

definition example_env :: env where
  "example_env =
     \<lparr>date_now = 1000, iso_string = show_int,
      leather_state = Some example_wallet, unisat_state = None,
      leather_sign = (\<lambda>h. Inr (h @ ''ff'')), unisat_sign = (\<lambda>h. Inr h),
      block_height = Inr 151, fee_estimates = Inr 3,
      raw_transaction = (\<lambda>t. Inr ''0200''), sha256_hex = (\<lambda>u. Inr ''ab''),
      app_vk = ''vk'', fetch_wasm = Inr ''AGFzbQ=='',
      prove = (\<lambda>r. Inr (''c0'', ''5e'')),
      submit_package = (\<lambda>n c sp. Inr ''f00d''),
      tx_from_hex = (\<lambda>h. Inr ()),
      raw_to_psbt = (\<lambda>c p i n. Inr (''70736274'' @ c)),
      bitcoin_lib = example_lib,
      bitcoin_network = testnet\<rparr>"

definition example_vault :: Vault where
  "example_vault =
     \<lparr>vault_id = ''f00d:0'', vault_type = ''Inheritance'', vault_status = Active,
      lockedBTC = round_double (1 / 1000), unlockDate = ''86401000'', unlockBlock = 150,
      createdAt = ''1000'', createdBlock = 100,
      vault_beneficiaries = [\<lparr>address = ''tb1qheir1'', percentage = 60\<rparr>,
                             \<lparr>address = ''tb1qheir2'', percentage = 40\<rparr>],
      ownerPubkey = ''02aa'', triggerDelayBlocks = 50, transactions = []\<rparr>"

definition empty_state :: state where
  "empty_state =
     \<lparr>locks = [], failedUTXOs = Map.empty, vaultsCache = Map.empty,
      vaultStorage = Map.empty, wasmCache = None, trace = []\<rparr>"

definition example_state :: state where
  "example_state = empty_state\<lparr>vaultStorage := [''vault_f00d:0'' \<mapsto> example_vault]\<rparr>"

definition example_charm :: "int \<Rightarrow> int \<Rightarrow> Beneficiary list \<Rightarrow> InheritanceContent" where
  "example_charm l d bs =
     \<lparr>owner_pubkey = ''02aa'', last_checkin_block = l, trigger_delay_blocks = d,
      beneficiaries = bs, status = Active\<rparr>"

definition example_vault_utxo :: "int \<Rightarrow> UTXO" where
  "example_vault_utxo v =
     \<lparr>txid = ''f00d'', vout = Num 0, utxo_value = v, scriptPubKey = [], utxo_address = None\<rparr>"

section \<open>Verification\<close>

lemmas action_defs = seq_def ret_def throw_def lift_def call_def getCurrentBlockHeight_def
  getFeeEstimates_def getRawTransaction_def proveSpell_def broadcastPackage_def
  signTransaction_def loadContractWasm_def buildProverRequest_def lock_op_def unlock_op_def
  saveVaultToStorage_def set_cached_def

lemmas example_defs = example_env_def example_wallet_def example_vault_def empty_state_def
  example_state_def utxo_A_def utxo_B_def example_lib_def taproot_input_def segwit_input_def
  finalized_input_def unsigned_input_def example_charm_def example_vault_utxo_def

lemmas eval_defs = action_defs Let_def getVault_def getActiveWallet_def vault_utxo_def
  vault_charm_def calculateAppId_def buildAppReference_def fee_or_default_def
  calculateUnlockDate_def toISOString_def format_utxo_id_def show_number_def show_int_def
  show_nat.simps digit_char_def validateBeneficiaries_def

lemmas createVault_eval_defs = createVault_def createVault_try_def createVault_locked_def
  createVault_broadcast_def buildCreateVaultSpell_def selectFundingUTXO_def suitable_def
  isLocked_def clearExpiredLocks_def lockUTXO_def unlockUTXO_def MIN_UTXO_VALUE_def
  LOCK_TIMEOUT_def FAILURE_COOLDOWN_def extractTxFromPsbt_def finalize_one_def
  manual_witness_def

lemma getVault_cached:
  "getVault vaultId s = (Inr vault, s1) \<Longrightarrow>
   vaultsCache s1 vaultId = Some vault \<and> trace s1 = trace s \<and> vaultStorage s1 = vaultStorage s
   \<and> locks s1 = locks s"
  by (auto simp: getVault_def split: option.splits)

lemma seq_getVault:
  "getVault vaultId s = (Inr vault, s1) \<Longrightarrow> seq (getVault vaultId) f s = f vault s1"
  by (simp add: seq_def)

lemma getVault_hit: "vaultsCache s vaultId = Some v \<Longrightarrow> getVault vaultId s = (Inr v, s)"
  by (simp add: getVault_def)

lemma example_getVault:
  "getVault ''f00d:0'' example_state
     = (Inr example_vault, example_state\<lparr>vaultsCache := [''f00d:0'' \<mapsto> example_vault]\<rparr>)"
  by (simp add: getVault_def example_state_def empty_state_def)

subsection \<open>Rounding to a double\<close>

text \<open>
  An integer of magnitude below \<open>2 ^ 53\<close> is a double, and the floor of the rounded
  hundredth of such an integer is its quotient by 100: the rounding error is below
  \<open>1 / 100\<close>, the distance of a hundredth that is not an integer from the next integer.
\<close>

lemmas round_eval = round_double_def round_pos_def round_half_even_def Let_def
  scale_up.simps scale_down.simps

lemma floor_rat_numeral [simp]:
  "\<lfloor>(numeral a :: rat) / numeral b\<rfloor> = numeral a div numeral b"
  using floor_divide_of_int_eq [of "numeral a" "numeral b", where ?'a = rat] by simp

lemma round_half_even_of_int: "round_half_even (of_int n) = n"
  by (simp add: round_half_even_def)

lemma round_half_even_near:
  "q - 1 / 2 \<le> of_int (round_half_even q) \<and> of_int (round_half_even q) \<le> q + 1 / 2"
  unfolding round_half_even_def Let_def
  by (auto; linarith)

lemma round_pos_of_int:
  assumes "0 < n" "n < 2 ^ 53"
  shows "round_pos (of_int n) = of_int n"
proof -
  have "\<not> (2 ^ 53 \<le> (of_int n :: rat))"
    using assms(2) by (metis not_le of_int_less_iff of_int_numeral of_int_power)
  moreover have "\<And>g. round_half_even (of_int n * 2 ^ g) = n * 2 ^ g"
    using round_half_even_of_int [of "n * 2 ^ g" for g] by simp
  ultimately show ?thesis
    by (simp add: round_pos_def Let_def)
qed

lemma round_double_of_int:
  assumes "\<bar>n\<bar> < 2 ^ 53"
  shows "round_double (of_int n) = of_int n"
proof (cases "n = 0")
  case True
  then show ?thesis by (simp add: round_double_def)
next
  case False
  show ?thesis
  proof (cases "n < 0")
    case True
    then have "round_pos (of_int (- n)) = of_int (- n)"
      using assms by (intro round_pos_of_int) auto
    with True show ?thesis by (simp add: round_double_def)
  next
    case False
    with \<open>n \<noteq> 0\<close> have "0 < n" by simp
    then have "round_pos (of_int n) = of_int n"
      using assms by (intro round_pos_of_int) auto
    with \<open>0 < n\<close> show ?thesis by (simp add: round_double_def)
  qed
qed

lemma scale_up_ge:
  "k \<le> fuel \<Longrightarrow> 0 \<le> x \<Longrightarrow> x * 2 ^ k < 2 ^ 53 \<Longrightarrow> k \<le> scale_up fuel x"
proof (induction k arbitrary: fuel x)
  case 0
  then show ?case by simp
next
  case (Suc k)
  have "x * 2 \<le> x * 2 ^ Suc k"
    using Suc.prems(2) by (intro mult_left_mono) (auto simp: power_Suc)
  with Suc.prems(3) have small: "x < 2 ^ 52" by simp
  from Suc.prems(1) have fuel: "fuel \<noteq> 0" "k \<le> fuel - 1" by auto
  have "k \<le> scale_up (fuel - 1) (2 * x)"
    using Suc.prems by (intro Suc.IH fuel) (auto simp: algebra_simps)
  with small fuel show ?case
    by (subst scale_up.simps) simp
qed

lemma round_pos_hundredth:
  assumes "0 < m" "m < 2 ^ 53"
  shows "(100 dvd m \<longrightarrow> round_pos (of_int m / 100) = of_int (m div 100))
       \<and> (\<not> 100 dvd m \<longrightarrow> of_int (m div 100) < round_pos (of_int m / 100)
                          \<and> round_pos (of_int m / 100) < of_int (m div 100) + 1)"
proof (cases "100 dvd m")
  case True
  then obtain k where k: "m = 100 * k" by (auto simp: dvd_def)
  with assms have "0 < k" "k < 2 ^ 53" by auto
  then have "round_pos (of_int k) = of_int k" by (rule round_pos_of_int)
  with k True show ?thesis by simp
next
  case False
  define x :: rat where "x = of_int m / 100"
  define g where "g = scale_up 1074 x"
  define k where "k = m div 100"
  define r where "r = m mod 100"
  have m: "m = 100 * k + r" by (simp add: k_def r_def)
  from False have r: "1 \<le> r" "r \<le> 99"
    unfolding r_def by presburger+
  have xk: "x = of_int k + of_int r / 100"
    by (simp add: x_def m)
  have x0: "0 \<le> x" using assms by (simp add: x_def)
  have "m < 9007199254740992" using assms(2) by simp
  then have "(of_int m :: rat) < 9007199254740992"
    by (metis of_int_less_iff of_int_numeral)
  then have "x * 2 ^ 6 < 2 ^ 53" by (simp add: x_def)
  then have g6: "6 \<le> g" unfolding g_def using x0 by (intro scale_up_ge) auto
  then have "(2::rat) ^ 6 \<le> 2 ^ g" by (intro power_increasing) auto
  then have p: "(64::rat) \<le> 2 ^ g" by simp
  have small: "\<not> 2 ^ 53 \<le> x"
    using \<open>x * 2 ^ 6 < 2 ^ 53\<close> x0 by simp
  define y where "y = (of_int (round_half_even (x * 2 ^ g)) :: rat)"
  have rp: "round_pos x = y / 2 ^ g"
    using small by (simp add: round_pos_def Let_def g_def y_def)
  from round_half_even_near [of "x * 2 ^ g"]
  have near: "x * 2 ^ g - 1 / 2 \<le> y" "y \<le> x * 2 ^ g + 1 / 2" by (simp_all add: y_def)
  have pos: "(0::rat) < 2 ^ g" by simp
  have lo: "x - 1 / 128 \<le> y / 2 ^ g"
  proof -
    have "(x - 1 / 128) * 2 ^ g \<le> x * 2 ^ g - 1 / 2"
      using p by (simp add: algebra_simps)
    with near(1) have "(x - 1 / 128) * 2 ^ g \<le> y" by simp
    with pos show ?thesis by (simp add: pos_le_divide_eq)
  qed
  have hi: "y / 2 ^ g \<le> x + 1 / 128"
  proof -
    have "x * 2 ^ g + 1 / 2 \<le> (x + 1 / 128) * 2 ^ g"
      using p by (simp add: algebra_simps)
    with near(2) have "y \<le> (x + 1 / 128) * 2 ^ g" by simp
    with pos show ?thesis by (simp add: pos_divide_le_eq)
  qed
  have "(of_int r :: rat) \<ge> 1" "(of_int r :: rat) \<le> 99"
    using r by simp_all
  then have "of_int k < x - 1 / 128" "x + 1 / 128 < of_int k + 1"
    by (simp_all add: xk)
  with lo hi rp False show ?thesis
    by (simp add: x_def k_def)
qed

lemma floor_between: "of_int k < (y::rat) \<Longrightarrow> y < of_int k + 1 \<Longrightarrow> \<lfloor>y\<rfloor> = k"
  by (rule floor_unique) simp_all

lemma floor_neg_between:
  "of_int k < (y::rat) \<Longrightarrow> y < of_int k + 1 \<Longrightarrow> \<lfloor>- y\<rfloor> = - k - 1"
  by (rule floor_unique) simp_all

lemma neg_div_100:
  "(100 dvd (m::int) \<longrightarrow> (- m) div 100 = - (m div 100))
   \<and> (\<not> 100 dvd m \<longrightarrow> (- m) div 100 = - (m div 100) - 1)"
  by (simp add: zdiv_zminus1_eq_if dvd_eq_mod_eq_0)

lemma floor_round_double_hundredth:
  assumes "\<bar>m\<bar> < 2 ^ 53"
  shows "\<lfloor>round_double (of_int m / 100)\<rfloor> = m div 100"
proof -
  consider "m = 0" | "0 < m" | "m < 0" by linarith
  then show ?thesis
  proof cases
    case 1
    then show ?thesis by (simp add: round_double_def)
  next
    case 2
    with assms have b: "m < 2 ^ 53" by simp
    have rd: "round_double (of_int m / 100) = round_pos (of_int m / 100)"
      using 2 by (simp add: round_double_def)
    show ?thesis
    proof (cases "100 dvd m")
      case True
      with round_pos_hundredth [OF 2 b]
      have "round_pos (of_int m / 100) = of_int (m div 100)" by blast
      then show ?thesis unfolding rd by simp
    next
      case False
      with round_pos_hundredth [OF 2 b]
      have "of_int (m div 100) < round_pos (of_int m / 100)"
        "round_pos (of_int m / 100) < of_int (m div 100) + 1" by blast+
      then show ?thesis unfolding rd by (rule floor_between)
    qed
  next
    case 3
    then have n: "0 < - m" by simp
    with assms have b: "- m < 2 ^ 53" by simp
    have "(of_int m :: rat) < 0" using 3 by simp
    then have rd: "round_double (of_int m / 100) = - round_pos (of_int (- m) / 100)"
      by (simp add: round_double_def)
    show ?thesis
    proof (cases "100 dvd m")
      case True
      then have "100 dvd - m" by simp
      with round_pos_hundredth [OF n b]
      have "round_pos (of_int (- m) / 100) = of_int ((- m) div 100)" by blast
      moreover from True neg_div_100 [of "- m"] have "(- m) div 100 = - (m div 100)"
        by simp
      ultimately show ?thesis unfolding rd by simp
    next
      case False
      then have nd: "\<not> 100 dvd - m" by simp
      with round_pos_hundredth [OF n b]
      have "of_int ((- m) div 100) < round_pos (of_int (- m) / 100)"
        "round_pos (of_int (- m) / 100) < of_int ((- m) div 100) + 1" by blast+
      then have "\<lfloor>- round_pos (of_int (- m) / 100)\<rfloor> = - ((- m) div 100) - 1"
        by (rule floor_neg_between)
      moreover from nd neg_div_100 [of "- m"] have "m div 100 = - ((- m) div 100) - 1"
        by simp
      ultimately show ?thesis unfolding rd by simp
    qed
  qed
qed

lemma js_minus_exact: "\<bar>a - b\<bar> < 2 ^ 53 \<Longrightarrow> js_minus a b = a - b"
  using round_double_of_int [of "a - b"] by (simp add: js_minus_def)

lemma distribution_amount_exact:
  assumes "\<bar>t * p\<bar> < 2 ^ 53"
  shows "\<lfloor>round_double (round_double (of_int t * of_int p) / 100)\<rfloor> = (t * p) div 100"
  using round_double_of_int [OF assms] floor_round_double_hundredth [OF assms] by simp

subsection \<open>Facts about the registry\<close>

lemma filter_length_eq_iff: "length (filter P xs) = length xs \<longleftrightarrow> filter P xs = xs"
  by (metis filter_True length_filter_less less_irrefl_nat filter_id_conv)

lemma unlockUTXO_store: "fst (unlockUTXO uid ls) = filter (\<lambda>u. utxoId u \<noteq> uid) ls"
  by (simp add: unlockUTXO_def Let_def filter_length_eq_iff)

lemma clearExpiredLocks_eq:
  "clearExpiredLocks now ls = filter (\<lambda>lock. \<not> now \<ge> expiresAt lock) ls"
proof (cases "length (filter (\<lambda>lock. \<not> now \<ge> expiresAt lock) ls) < length ls")
  case True
  then show ?thesis by (simp add: clearExpiredLocks_def Let_def)
next
  case False
  have "length (filter (\<lambda>lock. \<not> now \<ge> expiresAt lock) ls) \<le> length ls"
    by (rule length_filter_le)
  with False have "length (filter (\<lambda>lock. \<not> now \<ge> expiresAt lock) ls) = length ls"
    by linarith
  then have "filter (\<lambda>lock. \<not> now \<ge> expiresAt lock) ls = ls"
    by (simp only: filter_length_eq_iff)
  with False show ?thesis by (simp add: clearExpiredLocks_def Let_def)
qed

lemma find_None_records_for:
  "find (\<lambda>u. utxoId u = uid) ls = None \<longleftrightarrow> records_for uid ls = []"
  by (auto simp: records_for_def find_None_iff filter_empty_conv)

lemma records_for_unlock: "records_for uid (fst (unlockUTXO uid ls)) = []"
  by (simp add: unlockUTXO_store records_for_def filter_empty_conv)

lemma records_for_distinct_le1:
  "distinct (map utxoId ls) \<Longrightarrow> length (records_for uid ls) \<le> 1"
proof (induction ls)
  case Nil
  then show ?case by (simp add: records_for_def)
next
  case (Cons l ls)
  show ?case
  proof (cases "utxoId l = uid")
    case True
    with Cons.prems have "uid \<notin> utxoId ` set ls" by auto
    then have "records_for uid ls = []"
      by (auto simp: records_for_def filter_empty_conv)
    with True show ?thesis by (simp add: records_for_def)
  next
    case False
    with Cons show ?thesis by (simp add: records_for_def)
  qed
qed

lemma distinct_lockUTXO:
  "distinct (map utxoId ls) \<Longrightarrow> distinct (map utxoId (fst (lockUTXO now uid ty ls)))"
  by (auto simp: lockUTXO_def find_None_iff split: option.splits)

lemma distinct_unlockUTXO:
  "distinct (map utxoId ls) \<Longrightarrow> distinct (map utxoId (fst (unlockUTXO uid ls)))"
  by (simp add: unlockUTXO_store distinct_map_filter)

lemma distinct_clearExpiredLocks:
  "distinct (map utxoId ls) \<Longrightarrow> distinct (map utxoId (clearExpiredLocks now ls))"
  by (simp add: clearExpiredLocks_eq distinct_map_filter)

lemma distinct_isLocked:
  "distinct (map utxoId ls) \<Longrightarrow> distinct (map utxoId (snd (isLocked now uid ls)))"
  by (auto simp: isLocked_def distinct_unlockUTXO split: option.splits)

lemma lockUTXO_fresh:
  "records_for uid ls = [] \<Longrightarrow>
   lockUTXO now uid ty ls =
     (ls @ [\<lparr>utxoId = uid, lockedAt = now, lockType = ty, expiresAt = now + 900000\<rparr>], Log)"
  using find_None_records_for [of uid ls] by (simp add: lockUTXO_def LOCK_TIMEOUT_def)

lemma lockUTXO_present:
  "records_for uid ls \<noteq> [] \<Longrightarrow> lockUTXO now uid ty ls = (ls, Warn)"
  using find_None_records_for [of uid ls] by (auto simp: lockUTXO_def split: option.splits)

lemma find_append_None: "find P xs = None \<Longrightarrow> find P (xs @ ys) = find P ys"
  by (induction xs) (auto split: if_splits)

lemma records_for_lockUTXO_nonempty: "records_for uid (fst (lockUTXO now uid ty ls)) \<noteq> []"
  by (cases "records_for uid ls = []")
     (simp_all add: lockUTXO_fresh lockUTXO_present, simp add: records_for_def)

subsection \<open>Properties of the lock registry\<close>

text \<open>
  C7. Lock and unlock are idempotent in effect. In a registry that holds at most one
  record per id (which every registry operation preserves, starting from the empty
  registry), \<open>lock x; lock x\<close> leaves exactly one record for \<open>x\<close>, and the second call
  changes nothing and only warns. \<open>unlock x; unlock x\<close> leaves no record for \<open>x\<close>, and
  the second call changes nothing and only warns. A fresh lock is the record with
  \<open>expiresAt = now + 15 min\<close> (900000 ms) appended to the registry.
\<close>

theorem lock_unlock_idempotent:
  assumes "distinct (map utxoId ls)"
  shows "lockUTXO now2 x ty2 (fst (lockUTXO now1 x ty1 ls)) = (fst (lockUTXO now1 x ty1 ls), Warn)
       \<and> length (records_for x (fst (lockUTXO now2 x ty2 (fst (lockUTXO now1 x ty1 ls))))) = 1
       \<and> unlockUTXO x (fst (unlockUTXO x ls)) = (fst (unlockUTXO x ls), Warn)
       \<and> records_for x (fst (unlockUTXO x (fst (unlockUTXO x ls)))) = []
       \<and> (records_for x ls = [] \<longrightarrow>
            lockUTXO now1 x ty1 ls =
              (ls @ [\<lparr>utxoId = x, lockedAt = now1, lockType = ty1,
                       expiresAt = now1 + 15 * 60 * 1000\<rparr>], Log))"
proof -
  let ?l1 = "fst (lockUTXO now1 x ty1 ls)"
  have second: "lockUTXO now2 x ty2 ?l1 = (?l1, Warn)"
    by (rule lockUTXO_present) (rule records_for_lockUTXO_nonempty)
  have "distinct (map utxoId ?l1)"
    using assms by (rule distinct_lockUTXO)
  then have "length (records_for x ?l1) \<le> 1"
    by (rule records_for_distinct_le1)
  moreover have "records_for x ?l1 \<noteq> []"
    by (rule records_for_lockUTXO_nonempty)
  ultimately have one: "length (records_for x ?l1) = 1"
    by (cases "records_for x ?l1") simp_all
  let ?u1 = "fst (unlockUTXO x ls)"
  have "filter (\<lambda>u. utxoId u \<noteq> x) ?u1 = ?u1"
    by (simp add: unlockUTXO_store)
  then have unl: "unlockUTXO x ?u1 = (?u1, Warn)"
    by (simp add: unlockUTXO_def Let_def)
  have none: "records_for x (fst (unlockUTXO x ?u1)) = []"
    by (rule records_for_unlock)
  have fresh: "records_for x ls = [] \<longrightarrow>
      lockUTXO now1 x ty1 ls =
        (ls @ [\<lparr>utxoId = x, lockedAt = now1, lockType = ty1,
                 expiresAt = now1 + 15 * 60 * 1000\<rparr>], Log)"
    by (simp add: lockUTXO_fresh)
  from second one unl none fresh show ?thesis
    by simp
qed

theorem lock_unlock_idempotent_witness:
  "distinct (map utxoId ([] :: LockedUTXO list))
   \<and> lockUTXO 2000 ''aa:0'' creating_vault (fst (lockUTXO 1000 ''aa:0'' creating_vault []))
       = ([\<lparr>utxoId = ''aa:0'', lockedAt = 1000, lockType = creating_vault,
             expiresAt = 901000\<rparr>], Warn)
   \<and> records_for ''aa:0'' (fst (unlockUTXO ''aa:0'' (fst (unlockUTXO ''aa:0'' []))))
       = ([] :: LockedUTXO list)"
  using lock_unlock_idempotent [of "[]" 2000 "''aa:0''" creating_vault 1000 creating_vault]
  by (simp add: lockUTXO_def unlockUTXO_def records_for_def LOCK_TIMEOUT_def)

text \<open>
  C8. When the record that \<open>isLocked\<close> finds for an id has \<open>expiresAt \<le> now\<close>, the call
  answers false and leaves a registry with no record for that id; when it has
  \<open>expiresAt > now\<close> the call answers true and leaves the registry as it was. Round trip:
  lock an id that has no record, let at least 15 minutes pass, and \<open>isLocked\<close> answers
  false and the registry is again the one before the lock.
\<close>

theorem isLocked_expiry:
  "(find (\<lambda>u. utxoId u = x) ls = Some lock \<and> expiresAt lock \<le> now \<longrightarrow>
      fst (isLocked now x ls) = False
      \<and> snd (isLocked now x ls) = filter (\<lambda>u. utxoId u \<noteq> x) ls
      \<and> records_for x (snd (isLocked now x ls)) = [])
   \<and> (find (\<lambda>u. utxoId u = x) ls = Some lock \<and> expiresAt lock > now \<longrightarrow>
      isLocked now x ls = (True, ls))
   \<and> (records_for x ls = [] \<and> now \<ge> t0 + 15 * 60 * 1000 \<longrightarrow>
      isLocked now x (fst (lockUTXO t0 x ty ls)) = (False, ls))"
proof (intro conjI impI)
  assume a: "find (\<lambda>u. utxoId u = x) ls = Some lock \<and> expiresAt lock \<le> now"
  then show "fst (isLocked now x ls) = False"
    by (simp add: isLocked_def)
  from a show s: "snd (isLocked now x ls) = filter (\<lambda>u. utxoId u \<noteq> x) ls"
    by (simp add: isLocked_def unlockUTXO_store)
  show "records_for x (snd (isLocked now x ls)) = []"
    by (simp add: s records_for_def filter_empty_conv)
next
  assume "find (\<lambda>u. utxoId u = x) ls = Some lock \<and> expiresAt lock > now"
  then show "isLocked now x ls = (True, ls)"
    by (simp add: isLocked_def)
next
  assume a: "records_for x ls = [] \<and> now \<ge> t0 + 15 * 60 * 1000"
  then have none: "\<forall>u\<in>set ls. utxoId u \<noteq> x"
    by (simp add: records_for_def filter_empty_conv)
  then have f: "find (\<lambda>u. utxoId u = x) ls = None"
    by (simp add: find_None_iff)
  from none have keep: "filter (\<lambda>u. utxoId u \<noteq> x) ls = ls"
    by (simp add: filter_id_conv)
  from a f keep show "isLocked now x (fst (lockUTXO t0 x ty ls)) = (False, ls)"
    by (simp add: lockUTXO_fresh isLocked_def find_append_None unlockUTXO_store)
qed

theorem isLocked_expiry_witness:
  "isLocked 901000 ''aa:0''
      (fst (lockUTXO 1000 ''aa:0'' creating_vault
         [\<lparr>utxoId = ''bb:1'', lockedAt = 5, lockType = creating_savings, expiresAt = 900005\<rparr>]))
     = (False,
        [\<lparr>utxoId = ''bb:1'', lockedAt = 5, lockType = creating_savings, expiresAt = 900005\<rparr>])
   \<and> isLocked 900999 ''aa:0''
        [\<lparr>utxoId = ''aa:0'', lockedAt = 1000, lockType = creating_vault, expiresAt = 901000\<rparr>]
     = (True,
        [\<lparr>utxoId = ''aa:0'', lockedAt = 1000, lockType = creating_vault, expiresAt = 901000\<rparr>])
   \<and> isLocked 901000 ''aa:0''
        [\<lparr>utxoId = ''aa:0'', lockedAt = 1000, lockType = creating_vault, expiresAt = 901000\<rparr>]
     = (False, [])"
  using isLocked_expiry
          [of "''aa:0''"
              "[\<lparr>utxoId = ''bb:1'', lockedAt = 5, lockType = creating_savings, expiresAt = 900005\<rparr>]"
              "\<lparr>utxoId = ''aa:0'', lockedAt = 1000, lockType = creating_vault, expiresAt = 901000\<rparr>"
              901000 1000 creating_vault]
        isLocked_expiry
          [of "''aa:0''"
              "[\<lparr>utxoId = ''aa:0'', lockedAt = 1000, lockType = creating_vault, expiresAt = 901000\<rparr>]"
              "\<lparr>utxoId = ''aa:0'', lockedAt = 1000, lockType = creating_vault, expiresAt = 901000\<rparr>"
              900999 0 creating_vault]
        isLocked_expiry
          [of "''aa:0''"
              "[\<lparr>utxoId = ''aa:0'', lockedAt = 1000, lockType = creating_vault, expiresAt = 901000\<rparr>]"
              "\<lparr>utxoId = ''aa:0'', lockedAt = 1000, lockType = creating_vault, expiresAt = 901000\<rparr>"
              901000 0 creating_vault]
  by (simp add: records_for_def prod_eq_iff)

subsection \<open>The funding selector\<close>

lemma all_active_after_clear: "\<forall>l \<in> set (clearExpiredLocks now ls). now < expiresAt l"
  by (auto simp: clearExpiredLocks_eq)

lemma find_Some_locked:
  "\<forall>l\<in>set ls. now < expiresAt l \<Longrightarrow>
   (find (\<lambda>u. utxoId u = uid) ls \<noteq> None) = locked_now now ls uid"
  by (auto simp: locked_now_def list_ex_iff find_None_iff)

lemma isLocked_all_active:
  "\<forall>l\<in>set ls. now < expiresAt l \<Longrightarrow> isLocked now uid ls = (locked_now now ls uid, ls)"
proof -
  assume a: "\<forall>l\<in>set ls. now < expiresAt l"
  show ?thesis
  proof (cases "find (\<lambda>u. utxoId u = uid) ls")
    case None
    with find_Some_locked [OF a, of uid] show ?thesis by (simp add: isLocked_def)
  next
    case (Some l)
    then have "l \<in> set ls" by (auto simp: find_Some_iff)
    with a have "now < expiresAt l" by blast
    with Some find_Some_locked [OF a, of uid] show ?thesis by (simp add: isLocked_def)
  qed
qed

lemma locked_now_clear: "locked_now now (clearExpiredLocks now ls) uid = locked_now now ls uid"
  by (auto simp: locked_now_def list_ex_iff clearExpiredLocks_eq)

lemma eligible_clear:
  "eligible now failed (clearExpiredLocks now ls) req = eligible now failed ls req"
  by (rule ext) (simp add: eligible_def locked_now_clear)

lemma suitable_all_active:
  "\<forall>l\<in>set ls. now < expiresAt l \<Longrightarrow>
   suitable now failed req u ls = (eligible now failed ls req u, ls)"
  by (auto simp: suitable_def isLocked_all_active eligible_def cooling_down_def
        FAILURE_COOLDOWN_def split: option.splits bool.splits)

lemma filter_suitable_all_active:
  "\<forall>l\<in>set ls. now < expiresAt l \<Longrightarrow>
   filter_suitable now failed req us ls = (filter (eligible now failed ls req) us, ls)"
  by (induction us) (simp_all add: suitable_all_active)

lemma selectFundingUTXO_eq:
  "selectFundingUTXO now failed us req ls =
     (case sort_key utxo_value (filter (eligible now failed ls req) us) of
        [] \<Rightarrow> None | u # _ \<Rightarrow> Some u,
      clearExpiredLocks now ls)"
  using filter_suitable_all_active [OF all_active_after_clear, of now failed req us ls]
  by (simp add: selectFundingUTXO_def eligible_clear split: list.splits)

lemma sort_key_head_min:
  "sort_key f xs = y # ys \<Longrightarrow> y \<in> set xs \<and> (\<forall>x\<in>set xs. f y \<le> f x)"
proof -
  assume a: "sort_key f xs = y # ys"
  have s: "set (sort_key f xs) = set xs" by simp
  have "sorted (map f (sort_key f xs))" by (rule sorted_sort_key)
  with a have "\<forall>x\<in>set ys. f y \<le> f x" by simp
  with a s show ?thesis by (metis list.set_intros(1) order_refl set_ConsD)
qed


lemma select_fst:
  "fst (selectFundingUTXO now failed candidates req ls) =
     (case sort_key utxo_value (filter (eligible now failed ls req) candidates) of
        [] \<Rightarrow> None | u # _ \<Rightarrow> Some u)"
  by (simp add: selectFundingUTXO_eq)

lemma select_None_iff:
  "fst (selectFundingUTXO now failed candidates req ls) = None
     \<longleftrightarrow> (\<forall>u\<in>set candidates. \<not> eligible now failed ls req u)"
proof -
  let ?el = "filter (eligible now failed ls req) candidates"
  have "sort_key utxo_value ?el = [] \<longleftrightarrow> ?el = []"
    by (metis set_sort set_empty)
  then have e: "sort_key utxo_value ?el = []
        \<longleftrightarrow> (\<forall>u\<in>set candidates. \<not> eligible now failed ls req u)"
    by (simp add: filter_empty_conv)
  show ?thesis
    unfolding e [symmetric] by (cases "sort_key utxo_value ?el") (simp_all add: select_fst)
qed

lemma select_Some:
  assumes "fst (selectFundingUTXO now failed candidates req ls) = Some u"
  shows "u \<in> set candidates \<and> eligible now failed ls req u
         \<and> (\<forall>v\<in>set candidates. eligible now failed ls req v \<longrightarrow> utxo_value u \<le> utxo_value v)"
proof -
  let ?el = "filter (eligible now failed ls req) candidates"
  from assms obtain ys where ys: "sort_key utxo_value ?el = u # ys"
    by (auto simp: select_fst split: list.splits)
  from sort_key_head_min [OF ys]
  have "u \<in> set ?el" and m: "\<forall>x\<in>set ?el. utxo_value u \<le> utxo_value x"
    by blast+
  then show ?thesis by simp
qed

lemma createVault_no_candidate:
  assumes "validateBeneficiaries bs" and "getActiveWallet env = Some (w, sign)"
    and "\<forall>u\<in>set (utxos w). \<not> eligible (date_now env) (failedUTXOs s) (locks s) amount u"
  shows "\<exists>msg. fst (createVault env amount bs delay s)
                    = Inl (CharmVaultError msg ''INSUFFICIENT_FUNDS'')"
proof -
  from assms(3)
  have "filter (eligible (date_now env) (failedUTXOs s) (locks s) amount) (utxos w) = []"
    by (simp add: filter_empty_conv)
  then have "selectFundingUTXO (date_now env) (failedUTXOs s) (utxos w) amount (locks s)
      = (None, clearExpiredLocks (date_now env) (locks s))"
    by (simp add: selectFundingUTXO_eq)
  with assms(1,2) show ?thesis
    by (simp add: createVault_def createVault_try_def)
qed

text \<open>
  C5. The selector answers with the first element of the stable ascending sort, by value,
  of the candidates that are eligible: value at least the required amount, no unexpired
  lock record, not failed within the last five minutes. So it answers none exactly when
  no candidate is eligible, and otherwise with an eligible candidate of least value; and
  \<open>createVault\<close>, given valid beneficiaries and a connected wallet none of whose UTXOs is
  eligible, fails with the code \<open>INSUFFICIENT_FUNDS\<close>. With A (5000 sats) and B (10000
  sats) and 4000 sats required, B is chosen when A is locked and A when both are eligible.
\<close>

theorem selectFundingUTXO_smallest_eligible:
  "fst (selectFundingUTXO now failed candidates req ls) =
     (case sort_key utxo_value (filter (eligible now failed ls req) candidates) of
        [] \<Rightarrow> None | u # _ \<Rightarrow> Some u)
   \<and> (fst (selectFundingUTXO now failed candidates req ls) = None
        \<longleftrightarrow> (\<forall>u\<in>set candidates. \<not> eligible now failed ls req u))
   \<and> (\<forall>u. fst (selectFundingUTXO now failed candidates req ls) = Some u \<longrightarrow>
         u \<in> set candidates \<and> eligible now failed ls req u
         \<and> (\<forall>v\<in>set candidates. eligible now failed ls req v \<longrightarrow> utxo_value u \<le> utxo_value v))
   \<and> (validateBeneficiaries bs \<and> getActiveWallet env = Some (w, sign)
        \<and> (\<forall>u\<in>set (utxos w). \<not> eligible (date_now env) (failedUTXOs s) (locks s) amount u)
       \<longrightarrow> (\<exists>msg. fst (createVault env amount bs delay s)
                    = Inl (CharmVaultError msg ''INSUFFICIENT_FUNDS'')))"
  using select_fst [of now failed candidates req ls]
        select_None_iff [of now failed candidates req ls]
        select_Some [of now failed candidates req ls]
        createVault_no_candidate [of bs env w sign s amount delay]
  by blast

theorem selectFundingUTXO_smallest_eligible_witness:
  "fst (selectFundingUTXO 1000 Map.empty [utxo_A, utxo_B] 4000
         [\<lparr>utxoId = ''A:0'', lockedAt = 500, lockType = creating_vault, expiresAt = 900500\<rparr>])
     = Some utxo_B
   \<and> fst (selectFundingUTXO 1000 Map.empty [utxo_A, utxo_B] 4000 []) = Some utxo_A
   \<and> fst (selectFundingUTXO 1000 Map.empty [utxo_B, utxo_A] 4000 []) = Some utxo_A
   \<and> fst (selectFundingUTXO 1000 [''A:0'' \<mapsto> \<lparr>fail_count = 1, lastFailed = 900\<rparr>]
            [utxo_A, utxo_B] 4000 []) = Some utxo_B
   \<and> fst (selectFundingUTXO 1000 Map.empty [utxo_A, utxo_B] 20000 []) = None
   \<and> fst (createVault example_env 20000 [\<lparr>address = ''tb1qheir'', percentage = 100\<rparr>] 144
            empty_state)
     = Inl (CharmVaultError
              ''Insufficient funds or all suitable UTXOs are currently locked/cooling down. Please try again in a few minutes.''
              ''INSUFFICIENT_FUNDS'')"
  using selectFundingUTXO_smallest_eligible [of 1000 Map.empty "[utxo_A, utxo_B]" 4000
          "[\<lparr>utxoId = ''A:0'', lockedAt = 500, lockType = creating_vault, expiresAt = 900500\<rparr>]"
          "[\<lparr>address = ''tb1qheir'', percentage = 100\<rparr>]" example_env example_wallet
          "leather_sign example_env"
          empty_state 20000 144]
  by (simp add: selectFundingUTXO_eq eligible_def locked_now_def cooling_down_def
        format_utxo_id_def show_number_def show_int_def show_nat.simps digit_char_def
        utxo_A_def utxo_B_def
        example_env_def example_wallet_def validateBeneficiaries_def getActiveWallet_def
        createVault_def createVault_try_def clearExpiredLocks_eq empty_state_def
        example_lib_def)


subsection \<open>The spell assembler\<close>

lemma buildDistributeSpell_cases:
  assumes "sha256_hex env (format_utxo_id (txid vaultUTXO) (vout vaultUTXO)) = Inr h"
  shows "buildDistributeSpell env vaultUTXO c currentBlock =
     (if currentBlock \<le> last_checkin_block c + trigger_delay_blocks c then
        Inl (Error (''Deadline not reached. Current block: '' @ show_int currentBlock
                     @ '', Deadline: ''
                     @ show_int (last_checkin_block c + trigger_delay_blocks c)))
      else
        Inr \<lparr>version = 8, apps = [(''$00'', ''n/'' @ h @ ''/'' @ app_vk env)],
             ins = [\<lparr>utxo_id = format_utxo_id (txid vaultUTXO) (vout vaultUTXO),
                     in_charms = Some [(''$00'', c)]\<rparr>],
             outs = map (distribution_output (js_minus (utxo_value vaultUTXO) 2000))
                      (beneficiaries c),
             private_inputs = None\<rparr>)"
  using assms by (simp add: buildDistributeSpell_def calculateAppId_def Let_def)

lemma buildDistributeSpell_Inr:
  assumes "buildDistributeSpell env vaultUTXO c currentBlock = Inr sp"
  shows "outs sp = map (distribution_output (js_minus (utxo_value vaultUTXO) 2000))
                     (beneficiaries c)
       \<and> currentBlock > last_checkin_block c + trigger_delay_blocks c"
  using assms
  by (auto simp: buildDistributeSpell_def calculateAppId_def Let_def
        split: sum.splits if_splits)

text \<open>
  C2 (as amended). Once the app id of the vault UTXO is computed, building a distribution
  spell fails if and only if \<open>currentBlock \<le> last_checkin_block + trigger_delay_blocks\<close>,
  and it fails with a plain \<open>Error\<close> (``Deadline not reached''), which carries no
  error code; when the deadline has strictly passed it succeeds with one output per
  beneficiary, none of which carries a charm. The error with code \<open>VAULT_LOCKED\<close> is
  thrown by \<open>distribute\<close> itself, before the builder is called, when the current block is
  at most the \<open>unlockBlock\<close> of the stored vault record.
\<close>

theorem buildDistributeSpell_deadline_gate:
  assumes "sha256_hex env (format_utxo_id (txid vaultUTXO) (vout vaultUTXO)) = Inr h"
  shows "(isl (buildDistributeSpell env vaultUTXO c currentBlock)
            \<longleftrightarrow> currentBlock \<le> last_checkin_block c + trigger_delay_blocks c)
       \<and> (currentBlock \<le> last_checkin_block c + trigger_delay_blocks c \<longrightarrow>
            buildDistributeSpell env vaultUTXO c currentBlock =
              Inl (Error (''Deadline not reached. Current block: '' @ show_int currentBlock
                           @ '', Deadline: ''
                           @ show_int (last_checkin_block c + trigger_delay_blocks c))))
       \<and> (currentBlock > last_checkin_block c + trigger_delay_blocks c \<longrightarrow>
            (\<exists>sp. buildDistributeSpell env vaultUTXO c currentBlock = Inr sp
                  \<and> length (outs sp) = length (beneficiaries c)
                  \<and> (\<forall>out\<in>set (outs sp). out_charms out = None)))
       \<and> (getVault vaultId s = (Inr vault, s1) \<and> block_height env = Inr b
             \<and> b \<le> unlockBlock vault \<longrightarrow>
             fst (distribute env vaultId s) =
               Inl (CharmVaultError
                      (''Vault cannot be distributed yet. Unlock block: ''
                        @ show_int (unlockBlock vault) @ '', Current block: '' @ show_int b)
                      ''VAULT_LOCKED''))"
proof -
  have gate: "getVault vaultId s = (Inr vault, s1) \<and> block_height env = Inr b
             \<and> b \<le> unlockBlock vault \<longrightarrow>
             fst (distribute env vaultId s) =
               Inl (CharmVaultError
                      (''Vault cannot be distributed yet. Unlock block: ''
                        @ show_int (unlockBlock vault) @ '', Current block: '' @ show_int b)
                      ''VAULT_LOCKED'')"
  proof
    assume a: "getVault vaultId s = (Inr vault, s1) \<and> block_height env = Inr b
             \<and> b \<le> unlockBlock vault"
    then have g: "getVault vaultId s = (Inr vault, s1)" by simp
    from a show "fst (distribute env vaultId s) =
               Inl (CharmVaultError
                      (''Vault cannot be distributed yet. Unlock block: ''
                        @ show_int (unlockBlock vault) @ '', Current block: '' @ show_int b)
                      ''VAULT_LOCKED'')"
      by (simp add: distribute_def distribute_try_def seq_getVault [OF g] seq_def
            getCurrentBlockHeight_def call_def throw_def)
  qed
  show ?thesis
    using gate by (auto simp: buildDistributeSpell_cases [OF assms] distribution_output_def)
qed

theorem buildDistributeSpell_deadline_gate_witness:
  "buildDistributeSpell example_env (example_vault_utxo 100000)
      (example_charm 100 50 [\<lparr>address = ''tb1qheir'', percentage = 100\<rparr>]) 150
     = Inl (Error ''Deadline not reached. Current block: 150, Deadline: 150'')
   \<and> map out_charms
        (outs (projr (buildDistributeSpell example_env (example_vault_utxo 100000)
           (example_charm 100 50 [\<lparr>address = ''tb1qheir'', percentage = 100\<rparr>]) 151)))
       = [None]
   \<and> \<not> isl (buildDistributeSpell example_env (example_vault_utxo 100000)
          (example_charm 100 50 [\<lparr>address = ''tb1qheir'', percentage = 100\<rparr>]) 151)
   \<and> fst (distribute (example_env\<lparr>block_height := Inr 150\<rparr>) ''f00d:0'' example_state)
       = Inl (CharmVaultError
                ''Vault cannot be distributed yet. Unlock block: 150, Current block: 150''
                ''VAULT_LOCKED'')"
  using buildDistributeSpell_deadline_gate
          [where env = example_env and vaultUTXO = "example_vault_utxo 100000" and h = "''ab''"
             and c = "example_charm 100 50 [\<lparr>address = ''tb1qheir'', percentage = 100\<rparr>]"
             and currentBlock = 150]
        buildDistributeSpell_deadline_gate
          [where env = "example_env\<lparr>block_height := Inr 150\<rparr>"
             and vaultUTXO = "example_vault_utxo 100000" and h = "''ab''"
             and c = "example_charm 100 50 [\<lparr>address = ''tb1qheir'', percentage = 100\<rparr>]"
             and currentBlock = 151 and vaultId = "''f00d:0''" and s = example_state
             and vault = example_vault
             and ?s1.0 = "example_state\<lparr>vaultsCache := [''f00d:0'' \<mapsto> example_vault]\<rparr>"
             and b = 150]
        example_getVault
  by (simp add: buildDistributeSpell_def calculateAppId_def distribution_output_def
        example_env_def example_charm_def example_vault_utxo_def example_vault_def
        show_int_def show_nat.simps digit_char_def)

text \<open>
  The claim as stated fails at last check-in 100, delay 50 and current block 150: the
  builder's error is a plain \<open>Error\<close> and not the error with code \<open>VAULT_LOCKED\<close>.
\<close>

theorem buildDistributeSpell_error_counterexample:
  "buildDistributeSpell example_env (example_vault_utxo 100000)
      (example_charm 100 50 [\<lparr>address = ''tb1qheir'', percentage = 100\<rparr>]) 150
     = Inl (Error ''Deadline not reached. Current block: 150, Deadline: 150'')
   \<and> \<not> (\<exists>msg. buildDistributeSpell example_env (example_vault_utxo 100000)
              (example_charm 100 50 [\<lparr>address = ''tb1qheir'', percentage = 100\<rparr>]) 150
            = Inl (CharmVaultError msg ''VAULT_LOCKED''))"
  by (simp add: buildDistributeSpell_def calculateAppId_def example_env_def example_charm_def
        example_vault_utxo_def show_int_def show_nat.simps digit_char_def)

lemma sum_list_div_le:
  "sum_list (map (\<lambda>b. (t * percentage b) div 100) bs) * 100
     \<le> t * sum_list (map percentage bs)"
proof (induction bs)
  case Nil
  then show ?case by simp
next
  case (Cons b bs)
  have "\<And>x::int. x div 100 * 100 \<le> x"
    by presburger
  then have "(t * percentage b) div 100 * 100 \<le> t * percentage b" .
  with Cons show ?case by (simp add: algebra_simps)
qed

lemma distribution_output_exact:
  assumes "\<bar>(v - 2000) * percentage b\<bar> < 2 ^ 53"
  shows "sats (distribution_output (js_minus v 2000) b) = ((v - 2000) * percentage b) div 100"
proof (cases "percentage b = 0")
  case True
  then show ?thesis by (simp add: distribution_output_def round_double_def)
next
  case False
  then have "1 \<le> \<bar>percentage b\<bar>" by simp
  then have "\<bar>v - 2000\<bar> * 1 \<le> \<bar>v - 2000\<bar> * \<bar>percentage b\<bar>"
    by (intro mult_left_mono) simp_all
  with assms have "\<bar>v - 2000\<bar> < 2 ^ 53" by (simp add: abs_mult)
  then have "js_minus v 2000 = v - 2000" by (rule js_minus_exact)
  with distribution_amount_exact [OF assms] show ?thesis
    by (simp add: distribution_output_def)
qed

text \<open>
  C3 (as amended). A distribution spell built from a vault UTXO of value \<open>V\<close> has exactly
  one output per beneficiary, in order, paying to the beneficiary's address with no charm.
  The amount is computed in doubles. For a beneficiary with percentage \<open>p\<close> whose product
  \<open>(V - 2000) * p\<close> is below \<open>2 ^ 53\<close> in magnitude the output is
  \<open>floor ((V - 2000) * p / 100)\<close> sats. When this holds for every beneficiary and the
  percentages sum to 100, the outputs sum to at most \<open>V - 2000\<close>; when moreover
  \<open>V \<ge> 2000\<close> and no percentage is negative, every output is at least 0 and at most \<open>V\<close>.
\<close>

theorem buildDistributeSpell_amounts:
  assumes "buildDistributeSpell env vaultUTXO c currentBlock = Inr sp"
  shows "length (outs sp) = length (beneficiaries c)
       \<and> (\<forall>i<length (beneficiaries c).
             out_address (outs sp ! i) = address (beneficiaries c ! i)
             \<and> out_charms (outs sp ! i) = None
             \<and> (\<bar>(utxo_value vaultUTXO - 2000) * percentage (beneficiaries c ! i)\<bar> < 2 ^ 53 \<longrightarrow>
                  sats (outs sp ! i)
                    = ((utxo_value vaultUTXO - 2000) * percentage (beneficiaries c ! i)) div 100))
       \<and> ((\<forall>b\<in>set (beneficiaries c). \<bar>(utxo_value vaultUTXO - 2000) * percentage b\<bar> < 2 ^ 53)
            \<and> sum_list (map percentage (beneficiaries c)) = 100 \<longrightarrow>
             sum_list (map sats (outs sp)) \<le> utxo_value vaultUTXO - 2000)
       \<and> ((\<forall>b\<in>set (beneficiaries c). \<bar>(utxo_value vaultUTXO - 2000) * percentage b\<bar> < 2 ^ 53)
            \<and> sum_list (map percentage (beneficiaries c)) = 100
            \<and> utxo_value vaultUTXO \<ge> 2000
            \<and> (\<forall>b\<in>set (beneficiaries c). 0 \<le> percentage b) \<longrightarrow>
             (\<forall>out\<in>set (outs sp). 0 \<le> sats out \<and> sats out \<le> utxo_value vaultUTXO))"
proof -
  let ?t = "utxo_value vaultUTXO - 2000"
  let ?bs = "beneficiaries c"
  let ?safe = "\<forall>b\<in>set ?bs. \<bar>?t * percentage b\<bar> < 2 ^ 53"
  from buildDistributeSpell_Inr [OF assms]
  have o: "outs sp = map (distribution_output (js_minus (utxo_value vaultUTXO) 2000)) ?bs"
    by simp
  have len: "length (outs sp) = length ?bs" by (simp add: o)
  have each: "\<forall>i<length ?bs.
             out_address (outs sp ! i) = address (?bs ! i)
             \<and> out_charms (outs sp ! i) = None
             \<and> (\<bar>?t * percentage (?bs ! i)\<bar> < 2 ^ 53 \<longrightarrow>
                  sats (outs sp ! i) = (?t * percentage (?bs ! i)) div 100)"
  proof (intro allI impI conjI)
    fix i
    assume "i < length ?bs"
    then show "out_address (outs sp ! i) = address (?bs ! i)"
      and "out_charms (outs sp ! i) = None"
      by (simp_all add: o distribution_output_def)
  next
    fix i
    assume "i < length ?bs" and "\<bar>?t * percentage (?bs ! i)\<bar> < 2 ^ 53"
    then show "sats (outs sp ! i) = (?t * percentage (?bs ! i)) div 100"
      by (simp add: o distribution_output_exact)
  qed
  have sats_eq: "map sats (outs sp) = map (\<lambda>b. (?t * percentage b) div 100) ?bs" if ?safe
    using that by (simp add: o distribution_output_exact)
  have total: "?safe \<and> sum_list (map percentage ?bs) = 100 \<longrightarrow>
                 sum_list (map sats (outs sp)) \<le> ?t"
  proof
    assume a: "?safe \<and> sum_list (map percentage ?bs) = 100"
    then have s100: "sum_list (map percentage ?bs) = 100" by simp
    from a have eq: "map sats (outs sp) = map (\<lambda>b. (?t * percentage b) div 100) ?bs"
      by (intro sats_eq) simp
    have "sum_list (map sats (outs sp)) * 100 \<le> ?t * sum_list (map percentage ?bs)"
      unfolding eq by (rule sum_list_div_le)
    then have "sum_list (map sats (outs sp)) * 100 \<le> ?t * 100"
      by (simp only: s100)
    then show "sum_list (map sats (outs sp)) \<le> ?t"
      by simp
  qed
  have bounds: "?safe \<and> sum_list (map percentage ?bs) = 100 \<and> utxo_value vaultUTXO \<ge> 2000
            \<and> (\<forall>b\<in>set ?bs. 0 \<le> percentage b) \<longrightarrow>
             (\<forall>out\<in>set (outs sp). 0 \<le> sats out \<and> sats out \<le> utxo_value vaultUTXO)"
  proof (intro impI ballI)
    fix out
    assume a: "?safe \<and> sum_list (map percentage ?bs) = 100 \<and> utxo_value vaultUTXO \<ge> 2000
            \<and> (\<forall>b\<in>set ?bs. 0 \<le> percentage b)"
      and "out \<in> set (outs sp)"
    then obtain b where b: "b \<in> set ?bs"
      and ob0: "out = distribution_output (js_minus (utxo_value vaultUTXO) 2000) b"
      by (auto simp: o)
    from a b have "\<bar>?t * percentage b\<bar> < 2 ^ 53" by blast
    then have ob: "sats out = (?t * percentage b) div 100"
      unfolding ob0 by (rule distribution_output_exact)
    from a b have p0: "0 \<le> percentage b" by blast
    from a have nonneg: "\<forall>x\<in>set (map percentage ?bs). 0 \<le> x" by simp
    from b have "percentage b \<in> set (map percentage ?bs)" by simp
    with nonneg have "percentage b \<le> sum_list (map percentage ?bs)"
      by (rule_tac member_le_sum_list) auto
    with a have p100: "percentage b \<le> 100" by simp
    from a have t0: "0 \<le> ?t" by simp
    have lo: "0 \<le> (?t * percentage b) div 100"
      using t0 p0 by (simp add: pos_imp_zdiv_nonneg_iff)
    have "?t * percentage b \<le> ?t * 100"
      using t0 p100 by (rule mult_left_mono [rotated])
    then have "(?t * percentage b) div 100 \<le> ?t"
      by (simp add: zdiv_mono1 [of "?t * percentage b" "?t * 100" 100, simplified])
    with lo ob show "0 \<le> sats out \<and> sats out \<le> utxo_value vaultUTXO" by simp
  qed
  from len each total bounds show ?thesis by blast
qed

theorem buildDistributeSpell_amounts_witness:
  "map sats (outs (projr (buildDistributeSpell example_env (example_vault_utxo 100000)
      (example_charm 100 50 [\<lparr>address = ''tb1qheir1'', percentage = 60\<rparr>,
                             \<lparr>address = ''tb1qheir2'', percentage = 40\<rparr>]) 151)))
     = [58800, 39200]
   \<and> map sats (outs (projr (buildDistributeSpell example_env (example_vault_utxo 100001)
      (example_charm 100 50 [\<lparr>address = ''tb1qheir1'', percentage = 33\<rparr>,
                             \<lparr>address = ''tb1qheir2'', percentage = 33\<rparr>,
                             \<lparr>address = ''tb1qheir3'', percentage = 34\<rparr>]) 151)))
     = [32340, 32340, 33320]"
  using buildDistributeSpell_amounts [of example_env "example_vault_utxo 100000"
          "example_charm 100 50 [\<lparr>address = ''tb1qheir1'', percentage = 60\<rparr>,
                                 \<lparr>address = ''tb1qheir2'', percentage = 40\<rparr>]" 151
          "projr (buildDistributeSpell example_env (example_vault_utxo 100000)
             (example_charm 100 50 [\<lparr>address = ''tb1qheir1'', percentage = 60\<rparr>,
                                    \<lparr>address = ''tb1qheir2'', percentage = 40\<rparr>]) 151)"]
  by (simp add: buildDistributeSpell_def calculateAppId_def distribution_output_def
        example_env_def example_charm_def example_vault_utxo_def js_minus_def round_eval)

text \<open>
  The claim as stated fails for a vault UTXO below the fee reserve, for a negative
  percentage, and for a value beyond the range in which the arithmetic of doubles is
  exact. The percentages sum to 100 in each list, yet 1000 sats at 100 percent give an
  output of -1000 sats, and 10000 sats at 150 and -50 percent give outputs of 12000 and
  -4000 sats. 100000000000001 sats at 99 and 1 percent give a first output of
  98999999998021 sats, one more than \<open>floor (99999999998001 * 99 / 100)\<close>;
  8694735050596498 sats at 100 percent give an output of 8694735050594499 sats, one more
  than \<open>V - 2000\<close>; and 30420532355666739200 sats at 100 percent give an output of
  30420532355666743296 sats, which is more than \<open>V\<close>.
\<close>

theorem buildDistributeSpell_amounts_counterexample:
  "map sats (outs (projr (buildDistributeSpell example_env (example_vault_utxo 1000)
      (example_charm 100 50 [\<lparr>address = ''tb1qheir'', percentage = 100\<rparr>]) 151)))
     = [- 1000]
   \<and> validateBeneficiaries [\<lparr>address = ''tb1qheir1'', percentage = 150\<rparr>,
                             \<lparr>address = ''tb1qheir2'', percentage = - 50\<rparr>]
   \<and> map sats (outs (projr (buildDistributeSpell example_env (example_vault_utxo 10000)
      (example_charm 100 50 [\<lparr>address = ''tb1qheir1'', percentage = 150\<rparr>,
                             \<lparr>address = ''tb1qheir2'', percentage = - 50\<rparr>]) 151)))
     = [12000, - 4000]
   \<and> map sats (outs (projr (buildDistributeSpell example_env
      (example_vault_utxo 100000000000001)
      (example_charm 100 50 [\<lparr>address = ''tb1qheir1'', percentage = 99\<rparr>,
                             \<lparr>address = ''tb1qheir2'', percentage = 1\<rparr>]) 151)))
     = [98999999998021, 999999999980]
   \<and> ((100000000000001 - 2000) * 99) div 100 = (98999999998020 :: int)
   \<and> map sats (outs (projr (buildDistributeSpell example_env
      (example_vault_utxo 8694735050596498)
      (example_charm 100 50 [\<lparr>address = ''tb1qheir'', percentage = 100\<rparr>]) 151)))
     = [8694735050594499]
   \<and> map sats (outs (projr (buildDistributeSpell example_env
      (example_vault_utxo 30420532355666739200)
      (example_charm 100 50 [\<lparr>address = ''tb1qheir'', percentage = 100\<rparr>]) 151)))
     = [30420532355666743296]"
  by (simp add: buildDistributeSpell_def calculateAppId_def distribution_output_def
        example_env_def example_charm_def example_vault_utxo_def validateBeneficiaries_def
        js_minus_def round_eval)

lemma foldl_percentage: "foldl (\<lambda>sum b. sum + percentage b) a bs = a + sum_list (map percentage bs)"
  by (induction bs arbitrary: a) simp_all

lemma validateBeneficiaries_iff:
  "validateBeneficiaries bs \<longleftrightarrow> sum_list (map percentage bs) = 100"
  by (simp add: validateBeneficiaries_def foldl_percentage)

text \<open>
  C4. \<open>validateBeneficiaries\<close> accepts a list if and only if its percentages sum to 100.
  With a list whose percentages do not sum to 100, \<open>createVault\<close> and
  \<open>updateBeneficiaries\<close> fail with the code \<open>VALIDATION_ERROR\<close> and leave the state as
  it was; in particular they add nothing to the trace, so they make no network call.
\<close>

theorem validation_before_network:
  "validateBeneficiaries bs = (sum_list (map percentage bs) = 100)
   \<and> (sum_list (map percentage bs) \<noteq> 100 \<longrightarrow>
        createVault env amount bs delay s =
          (Inl (CharmVaultError ''Beneficiary percentages must sum to exactly 100%''
                  ''VALIDATION_ERROR''), s)
        \<and> updateBeneficiaries env vaultId bs s =
          (Inl (CharmVaultError ''Beneficiary percentages must sum to exactly 100%''
                  ''VALIDATION_ERROR''), s)
        \<and> filter is_network_call (new_events s (snd (createVault env amount bs delay s))) = []
        \<and> filter is_network_call (new_events s (snd (updateBeneficiaries env vaultId bs s))) = [])"
  by (simp add: validateBeneficiaries_iff createVault_def createVault_try_def
        updateBeneficiaries_def updateBeneficiaries_try_def throw_def new_events_def)

theorem validation_before_network_witness:
  "\<not> validateBeneficiaries [\<lparr>address = ''tb1qheir1'', percentage = 60\<rparr>,
                             \<lparr>address = ''tb1qheir2'', percentage = 60\<rparr>]
   \<and> \<not> validateBeneficiaries [\<lparr>address = ''tb1qheir1'', percentage = 30\<rparr>,
                               \<lparr>address = ''tb1qheir2'', percentage = 30\<rparr>,
                               \<lparr>address = ''tb1qheir3'', percentage = 30\<rparr>]
   \<and> validateBeneficiaries [\<lparr>address = ''tb1qheir1'', percentage = 60\<rparr>,
                             \<lparr>address = ''tb1qheir2'', percentage = 40\<rparr>]
   \<and> createVault example_env 4000
        [\<lparr>address = ''tb1qheir1'', percentage = 60\<rparr>,
         \<lparr>address = ''tb1qheir2'', percentage = 60\<rparr>] 144 empty_state
       = (Inl (CharmVaultError ''Beneficiary percentages must sum to exactly 100%''
                 ''VALIDATION_ERROR''), empty_state)
   \<and> updateBeneficiaries example_env ''f00d:0''
        [\<lparr>address = ''tb1qheir1'', percentage = 60\<rparr>,
         \<lparr>address = ''tb1qheir2'', percentage = 60\<rparr>] example_state
       = (Inl (CharmVaultError ''Beneficiary percentages must sum to exactly 100%''
                 ''VALIDATION_ERROR''), example_state)"
  using validation_before_network
          [of "[\<lparr>address = ''tb1qheir1'', percentage = 60\<rparr>,
                \<lparr>address = ''tb1qheir2'', percentage = 60\<rparr>]"
              example_env 4000 144 empty_state "''f00d:0''"]
        validation_before_network
          [of "[\<lparr>address = ''tb1qheir1'', percentage = 60\<rparr>,
                \<lparr>address = ''tb1qheir2'', percentage = 60\<rparr>]"
              example_env 4000 144 example_state "''f00d:0''"]
  by (simp add: validateBeneficiaries_def)

subsection \<open>The orchestrator: creating a vault\<close>

lemma broadcast_calls_append:
  "broadcast_calls (xs @ ys) = broadcast_calls xs @ broadcast_calls ys"
  by (induction xs rule: broadcast_calls.induct) simp_all

lemma prover_outputs_append:
  "prover_outputs env (xs @ ys) = prover_outputs env xs @ prover_outputs env ys"
  by (induction env xs rule: prover_outputs.induct) (simp_all split: sum.splits)

lemma createVault_locked_shape:
  "createVault_locked env w sign amount bs delay f s = (r, s') \<Longrightarrow>
   trace s' = trace s @ new_events s s' \<and>
   set (map snd (broadcast_calls (new_events s s')))
     \<subseteq> set (map snd (prover_outputs env (new_events s s'))) \<and>
   (case r of
      Inr t \<Rightarrow>
        locks s' = fst (unlockUTXO (format_utxo_id (txid f) (vout f)) (locks s))
        \<and> drop (length (new_events s s') - 2) (new_events s s')
            = [UnlockUTXO (format_utxo_id (txid f) (vout f)), SaveVault (t @ '':0'')]
    | Inl e \<Rightarrow>
        locks s' = locks s
        \<or> locks s' = fst (unlockUTXO (format_utxo_id (txid f) (vout f)) (locks s)))"
  unfolding createVault_locked_def createVault_broadcast_def new_events_def
  by (auto simp: action_defs Let_def split: sum.splits prod.splits if_splits)

lemma unlock_after_lock_subset:
  "set (fst (unlockUTXO uid (fst (lockUTXO now uid ty ls)))) \<subseteq> set ls"
  by (cases "records_for uid ls = []")
     (auto simp: lockUTXO_fresh lockUTXO_present unlockUTXO_store)

lemma unlock_twice: "fst (unlockUTXO uid (fst (unlockUTXO uid ls))) = fst (unlockUTXO uid ls)"
  by (simp add: unlockUTXO_store)

lemma createVault_try_shape:
  assumes "createVault_try env amount bs delay s = (fo, r, s')"
  shows "set (locks s') \<subseteq> set (locks s)
     \<and> (\<exists>evs. trace s' = trace s @ evs
          \<and> (case r of
                Inr t \<Rightarrow>
                  (\<exists>uid mid. evs = LockUTXO uid # mid @ [UnlockUTXO uid, SaveVault (t @ '':0'')]
                     \<and> records_for uid (locks s') = [])
              | Inl e \<Rightarrow>
                  evs = []
                  \<or> (\<exists>uid mid. evs = LockUTXO uid # mid @ [UnlockUTXO uid]
                        \<and> records_for uid (locks s') = []))
          \<and> set (map snd (broadcast_calls evs)) \<subseteq> set (map snd (prover_outputs env evs)))"
proof (cases "validateBeneficiaries bs")
  case False
  with assms show ?thesis by (auto simp: createVault_try_def)
next
  case valid: True
  show ?thesis
  proof (cases "getActiveWallet env")
    case None
    with valid assms show ?thesis by (auto simp: createVault_try_def)
  next
    case (Some ws)
    obtain w sign where ws: "ws = (w, sign)" by (cases ws)
    let ?ls = "clearExpiredLocks (date_now env) (locks s)"
    have sub: "set ?ls \<subseteq> set (locks s)"
      by (auto simp: clearExpiredLocks_eq)
    have sel: "snd (selectFundingUTXO (date_now env) (failedUTXOs s) (utxos w) amount (locks s)) = ?ls"
      by (simp add: selectFundingUTXO_eq)
    show ?thesis
    proof (cases "fst (selectFundingUTXO (date_now env) (failedUTXOs s) (utxos w) amount (locks s))")
      case None
      with sel have "selectFundingUTXO (date_now env) (failedUTXOs s) (utxos w) amount (locks s)
          = (None, ?ls)"
        by (simp add: prod_eq_iff)
      with valid Some ws assms sub show ?thesis by (auto simp: createVault_try_def)
    next
      case (Some f)
      with sel have selected:
        "selectFundingUTXO (date_now env) (failedUTXOs s) (utxos w) amount (locks s) = (Some f, ?ls)"
        by (simp add: prod_eq_iff)
      show ?thesis
      proof (cases "utxo_value f < MIN_UTXO_VALUE")
        case True
        with valid \<open>getActiveWallet env = Some ws\<close> ws selected assms sub show ?thesis
          by (auto simp: createVault_try_def)
      next
        case False
        let ?uid = "format_utxo_id (txid f) (vout f)"
        let ?sl = "s\<lparr>locks := fst (lockUTXO (date_now env) ?uid creating_vault ?ls),
                     trace := trace s @ [LockUTXO ?uid]\<rparr>"
        obtain r1 s1 where body: "createVault_locked env w sign amount bs delay f ?sl = (r1, s1)"
          by (cases "createVault_locked env w sign amount bs delay f ?sl")
        have run: "seq (lock_op (date_now env) ?uid creating_vault)
                     (\<lambda>_. createVault_locked env w sign amount bs delay f) (s\<lparr>locks := ?ls\<rparr>)
                   = (r1, s1)"
          by (simp add: seq_def lock_op_def body)
        from createVault_locked_shape [OF body]
        have tr: "trace s1 = trace s @ LockUTXO ?uid # new_events ?sl s1"
          and bc: "set (map snd (broadcast_calls (new_events ?sl s1)))
                \<subseteq> set (map snd (prover_outputs env (new_events ?sl s1)))"
          and res: "case r1 of
              Inr t \<Rightarrow>
                locks s1 = fst (unlockUTXO ?uid (fst (lockUTXO (date_now env) ?uid creating_vault ?ls)))
                \<and> drop (length (new_events ?sl s1) - 2) (new_events ?sl s1)
                    = [UnlockUTXO ?uid, SaveVault (t @ '':0'')]
            | Inl e \<Rightarrow>
                locks s1 = fst (lockUTXO (date_now env) ?uid creating_vault ?ls)
                \<or> locks s1 = fst (unlockUTXO ?uid (fst (lockUTXO (date_now env) ?uid creating_vault ?ls)))"
          by (auto split: sum.splits)
        show ?thesis
        proof (cases r1)
          case (Inr t)
          with valid \<open>getActiveWallet env = Some ws\<close> ws selected False run assms
          have eq: "r = Inr t" "s' = s1"
            by (auto simp: createVault_try_def Let_def)
          from res Inr have l1: "locks s1 = fst (unlockUTXO ?uid (fst (lockUTXO (date_now env) ?uid creating_vault ?ls)))"
            and d: "drop (length (new_events ?sl s1) - 2) (new_events ?sl s1)
                    = [UnlockUTXO ?uid, SaveVault (t @ '':0'')]"
            by simp_all
          let ?ne = "new_events ?sl s1"
          let ?mid = "take (length ?ne - 2) ?ne"
          have "?ne = ?mid @ [UnlockUTXO ?uid, SaveVault (t @ '':0'')]"
            using append_take_drop_id [of "length ?ne - 2" ?ne] by (simp only: d)
          then have shape: "LockUTXO ?uid # ?ne
                = LockUTXO ?uid # ?mid @ [UnlockUTXO ?uid, SaveVault (t @ '':0'')]"
            by simp
          have rec: "records_for ?uid (locks s1) = []"
            by (simp only: l1 records_for_unlock)
          have sub1: "set (locks s1) \<subseteq> set (locks s)"
            using unlock_after_lock_subset [of ?uid "date_now env" creating_vault ?ls] sub
            unfolding l1 by blast
          have bc1: "set (map snd (broadcast_calls (LockUTXO ?uid # ?ne)))
                \<subseteq> set (map snd (prover_outputs env (LockUTXO ?uid # ?ne)))"
            using bc by simp
          have "\<exists>evs. trace s1 = trace s @ evs
                  \<and> (\<exists>uid mid. evs = LockUTXO uid # mid @ [UnlockUTXO uid, SaveVault (t @ '':0'')]
                        \<and> records_for uid (locks s1) = [])
                  \<and> set (map snd (broadcast_calls evs)) \<subseteq> set (map snd (prover_outputs env evs))"
            using tr shape rec bc1 by blast
          with sub1 show ?thesis
            unfolding eq by simp
        next
          case (Inl e)
          with valid \<open>getActiveWallet env = Some ws\<close> ws selected False run assms
          have eq: "r = Inl e" "s' = snd (unlock_op ?uid s1)"
            by (auto simp: createVault_try_def Let_def)
          from res Inl
          have "fst (unlockUTXO ?uid (locks s1))
                 = fst (unlockUTXO ?uid (fst (lockUTXO (date_now env) ?uid creating_vault ?ls)))"
            by (auto simp: unlock_twice)
          then have l': "locks s' = fst (unlockUTXO ?uid (fst (lockUTXO (date_now env) ?uid creating_vault ?ls)))"
            by (simp add: eq unlock_op_def)
          have t': "trace s' = trace s @ LockUTXO ?uid # new_events ?sl s1 @ [UnlockUTXO ?uid]"
            by (simp add: eq unlock_op_def tr)
          have rec: "records_for ?uid (locks s') = []"
            by (simp only: l' records_for_unlock)
          have sub1: "set (locks s') \<subseteq> set (locks s)"
            using unlock_after_lock_subset [of ?uid "date_now env" creating_vault ?ls] sub
            unfolding l' by blast
          have bc1: "set (map snd (broadcast_calls (LockUTXO ?uid # new_events ?sl s1 @ [UnlockUTXO ?uid])))
                \<subseteq> set (map snd (prover_outputs env
                                    (LockUTXO ?uid # new_events ?sl s1 @ [UnlockUTXO ?uid])))"
            using bc by (simp add: broadcast_calls_append prover_outputs_append)
          have "\<exists>evs. trace s' = trace s @ evs
                  \<and> (\<exists>uid mid. evs = LockUTXO uid # mid @ [UnlockUTXO uid]
                        \<and> records_for uid (locks s') = [])
                  \<and> set (map snd (broadcast_calls evs)) \<subseteq> set (map snd (prover_outputs env evs))"
            using t' rec bc1 by blast
          with sub1 show ?thesis
            unfolding eq(1) by auto
        qed
      qed
    qed
  qed
qed

lemma markUTXOFailed_keeps: "locks (markUTXOFailed env u s) = locks s \<and> trace (markUTXOFailed env u s) = trace s"
  by (simp add: markUTXOFailed_def Let_def)

lemma createVault_spell_tx_untouched:
  "set (map snd (broadcast_calls (new_events s (snd (createVault env amount bs delay s)))))
     \<subseteq> set (map snd (prover_outputs env (new_events s (snd (createVault env amount bs delay s)))))"
proof -
  obtain fo r0 s0 where t: "createVault_try env amount bs delay s = (fo, r0, s0)"
    by (cases "createVault_try env amount bs delay s")
  from createVault_try_shape [OF t] obtain evs where
    evs: "trace s0 = trace s @ evs"
    and sub: "set (map snd (broadcast_calls evs)) \<subseteq> set (map snd (prover_outputs env evs))"
    by blast
  from t have "trace (snd (createVault env amount bs delay s)) = trace s0"
    by (auto simp: createVault_def markUTXOFailed_keeps split: sum.splits)
  with evs have "new_events s (snd (createVault env amount bs delay s)) = evs"
    by (simp add: new_events_def)
  with sub show ?thesis by simp
qed

text \<open>
  C6. \<open>createVault\<close> leaves no lock behind that the registry did not hold before. When
  it returns a transaction id, what it did is: lock a UTXO, the calls in between, unlock
  that UTXO, write the vault record under \<open>txid:0\<close>, in this order. When it fails it has
  either done nothing, or what it did begins with the lock of a UTXO and ends with the
  unlock of that UTXO. In both cases the registry holds no record for that UTXO at the
  end.
\<close>

theorem createVault_releases_lock:
  assumes "createVault env amount bs delay s = (r, s')"
  shows "set (locks s') \<subseteq> set (locks s)
     \<and> (\<exists>evs. trace s' = trace s @ evs
          \<and> (case r of
                Inr t \<Rightarrow>
                  (\<exists>uid mid. evs = LockUTXO uid # mid @ [UnlockUTXO uid, SaveVault (t @ '':0'')]
                     \<and> records_for uid (locks s') = [])
              | Inl e \<Rightarrow>
                  evs = []
                  \<or> (\<exists>uid mid. evs = LockUTXO uid # mid @ [UnlockUTXO uid]
                        \<and> records_for uid (locks s') = [])))"
proof -
  obtain fo r0 s0 where t: "createVault_try env amount bs delay s = (fo, r0, s0)"
    by (cases "createVault_try env amount bs delay s")
  note shape = createVault_try_shape [OF t]
  show ?thesis
  proof (cases r0)
    case (Inr txid)
    with t assms have "r = Inr txid" "s' = s0" by (auto simp: createVault_def)
    with shape Inr show ?thesis by auto
  next
    case (Inl e)
    with t assms obtain e' where "r = Inl e'"
      and "locks s' = locks s0" and "trace s' = trace s0"
      by (auto simp: createVault_def markUTXOFailed_keeps split: if_splits)
    with shape Inl show ?thesis by auto
  qed
qed

theorem createVault_releases_lock_witness:
  "fst (createVault example_env 4000 [\<lparr>address = ''tb1qheir'', percentage = 100\<rparr>] 144
         empty_state) = Inr ''f00d''
   \<and> locks (snd (createVault example_env 4000 [\<lparr>address = ''tb1qheir'', percentage = 100\<rparr>] 144
         empty_state)) = []
   \<and> store_events (trace (snd (createVault example_env 4000
         [\<lparr>address = ''tb1qheir'', percentage = 100\<rparr>] 144 empty_state)))
       = [LockUTXO ''A:0'', UnlockUTXO ''A:0'', SaveVault ''f00d:0'']
   \<and> createVault
        (example_env\<lparr>prove := (\<lambda>r. Inl (CharmVaultError ''Prover API failed: timeout''
                                           ''PROVER_ERROR''))\<rparr>)
        4000 [\<lparr>address = ''tb1qheir'', percentage = 100\<rparr>] 144 empty_state
       = (Inl (CharmVaultError ''Prover API failed: timeout'' ''PROVER_ERROR''),
          empty_state\<lparr>wasmCache := Some ''AGFzbQ=='',
            trace := [LockUTXO ''A:0'', GetCurrentBlockHeight, GetFeeEstimates,
                      GetRawTransaction ''A'', FetchWasm,
                      ProveSpell
                        \<lparr>spell =
                           \<lparr>version = 8, apps = [(''$00'', ''n/ab/vk'')],
                            ins = [\<lparr>utxo_id = ''A:0'', in_charms = Some []\<rparr>],
                            outs = [\<lparr>out_address = ''tb1qowner'', sats = 4000,
                                     out_charms =
                                       Some [(''$00'',
                                              \<lparr>owner_pubkey = ''02aa'', last_checkin_block = 0,
                                               trigger_delay_blocks = 144,
                                               beneficiaries =
                                                 [\<lparr>address = ''tb1qheir'', percentage = 100\<rparr>],
                                               status = Active\<rparr>)]\<rparr>],
                            private_inputs = Some [(''$00'', ''A:0'')]\<rparr>,
                         binaries = [(''vk'', ''AGFzbQ=='')], prev_txs = [''0200''],
                         funding_utxo = ''A:0'', funding_utxo_value = 5000,
                         change_address = ''tb1qowner'', fee_rate = 3, chain = ''bitcoin''\<rparr>,
                      UnlockUTXO ''A:0'']\<rparr>)
   \<and> fst (createVault example_env 4000 [\<lparr>address = ''tb1qheir'', percentage = 100\<rparr>]
           100000000000 empty_state)
       = Inl (CharmVaultError ''Failed to create vault: Invalid time value''
                ''CREATE_VAULT_ERROR'')
   \<and> store_events (trace (snd (createVault example_env 4000
         [\<lparr>address = ''tb1qheir'', percentage = 100\<rparr>] 100000000000 empty_state)))
       = [LockUTXO ''A:0'', UnlockUTXO ''A:0'', UnlockUTXO ''A:0'']"
  using createVault_releases_lock
          [where env = example_env and amount = 4000
             and bs = "[\<lparr>address = ''tb1qheir'', percentage = 100\<rparr>]" and delay = 144
             and s = empty_state, OF surjective_pairing]
  by (simp add: createVault_eval_defs eval_defs example_defs)

subsection \<open>The orchestrator: operations on an existing vault\<close>

text \<open>
  The vault UTXO that the three operations rebuild. \<open>createVault\<close> stores the amount
  divided by \<open>10 ^ 8\<close> and the operations multiply it back, each time rounding to a double:
  the record of a vault of 100000 sats gives 100000 sats again, the record of a vault of
  7000 sats gives 6999 sats, also when \<open>createVault\<close> has stored it. A vault id without
  a colon gives the output index \<open>NaN\<close>.
\<close>

lemma vault_utxo_example:
  "vault_utxo ''f00d:0'' example_vault
     = \<lparr>txid = ''f00d'', vout = Num 0, utxo_value = 100000, scriptPubKey = [],
        utxo_address = None\<rparr>"
  by (simp add: vault_utxo_def example_vault_def parseInt_def is_white_space_def
        digit_value_def round_eval)

lemma vault_utxo_rounds_down:
  "utxo_value (vault_utxo ''f00d:0''
       (example_vault\<lparr>lockedBTC := round_double (of_int 7000 / 100000000)\<rparr>)) = 6999"
  by (simp add: vault_utxo_def round_eval)

lemma createVault_then_vault_utxo:
  "map_option (\<lambda>v. utxo_value (vault_utxo ''f00d:0'' v))
     (vaultsCache
        (snd (createVault example_env 7000 [\<lparr>address = ''tb1qheir'', percentage = 100\<rparr>] 144
                empty_state)) ''f00d:0'')
     = Some 6999"
  by (simp add: createVault_eval_defs eval_defs example_defs round_eval)

lemma vault_utxo_without_colon:
  "vout (vault_utxo ''f00d'' example_vault) = NaN
   \<and> format_utxo_id (txid (vault_utxo ''f00d'' example_vault))
        (vout (vault_utxo ''f00d'' example_vault)) = ''f00d:NaN''"
  by (simp add: vault_utxo_def parseInt_def is_white_space_def digit_value_def
        format_utxo_id_def show_number_def)

lemma checkin_try_shape:
  assumes "getVault vaultId s = (Inr vault, s1)"
    and "checkin_try env vaultId s = (r, s')"
  shows "set (input_charms (new_events s s')) \<subseteq> {vault_charm vault}
     \<and> (\<exists>v'. vaultsCache s' vaultId = Some v' \<and> createdBlock v' = createdBlock vault
             \<and> vault_charm v' = vault_charm vault
             \<and> (\<forall>t. r = Inr t \<longrightarrow>
                   input_charms (new_events s s') = [vault_charm vault]
                   \<and> vaultStorage s' (''vault_'' @ vault_id vault) = Some v'
                   \<and> (\<exists>b. block_height env = Inr b
                          \<and> unlockBlock v' = b + triggerDelayBlocks vault)))
     \<and> (\<forall>k. vaultStorage s' k \<noteq> vaultStorage s k \<longrightarrow>
           (\<exists>v'. vaultStorage s' k = Some v' \<and> createdBlock v' = createdBlock vault))"
  using assms(2) getVault_cached [OF assms(1)]
  unfolding checkin_try_def new_events_def seq_getVault [OF assms(1)]
  by (auto simp: action_defs Let_def buildCheckinSpell_def calculateAppId_def
        request_input_charms_def vault_charm_def
        split: sum.splits prod.splits if_splits option.splits)

lemma checkin_try_reaches_prover:
  assumes "getVault vaultId s = (Inr vault, s1)"
    and "checkin_try env vaultId s = (r, s')"
    and "vault_status vault = Active" and "getActiveWallet env \<noteq> None"
    and "\<not> isl (block_height env)"
    and "\<not> isl (sha256_hex env (format_utxo_id (txid (vault_utxo vaultId vault))
                                   (vout (vault_utxo vaultId vault))))"
    and "\<not> isl (raw_transaction env (txid (vault_utxo vaultId vault)))"
    and "\<not> isl (fetch_wasm env)"
  shows "input_charms (new_events s s') = [vault_charm vault]"
  using assms(2-) getVault_cached [OF assms(1)]
  unfolding checkin_try_def new_events_def seq_getVault [OF assms(1)]
  by (auto simp: action_defs Let_def buildCheckinSpell_def calculateAppId_def
        request_input_charms_def
        split: sum.splits prod.splits if_splits option.splits)

lemma updateBeneficiaries_try_valid:
  assumes "validateBeneficiaries nbs"
  shows "updateBeneficiaries_try env vaultId nbs s
      = seq (getVault vaultId) (\<lambda>vault.
        if vault_status vault \<noteq> Active then
          throw (CharmVaultError ''Can only update beneficiaries on active vaults''
                   ''INVALID_VAULT_STATUS'')
        else
          (case getActiveWallet env of
             None \<Rightarrow> throw (CharmVaultError ''Wallet not connected'' ''WALLET_NOT_CONNECTED'')
           | Some (walletState, sign) \<Rightarrow>
               (let vaultUTXO = vault_utxo vaultId vault;
                    vaultCharm = vault_charm vault in
                seq (getCurrentBlockHeight env) (\<lambda>currentBlock.
                seq (getFeeEstimates env) (\<lambda>halfHourFee.
                seq (lift (buildUpdateBeneficiariesSpell env vaultUTXO vaultCharm nbs
                             (publicKey walletState) currentBlock (wallet_address walletState)))
                  (\<lambda>sp.
                seq (getRawTransaction env (txid vaultUTXO)) (\<lambda>prevTxHex.
                seq (buildProverRequest env sp [prevTxHex] vaultId (utxo_value vaultUTXO)
                       (wallet_address walletState) (fee_or_default halfHourFee))
                  (\<lambda>proverRequest.
                seq (proveSpell env proverRequest) (\<lambda>(commitTx, spellTx).
                seq (signTransaction sign commitTx) (\<lambda>signedCommitTx.
                seq (signTransaction sign spellTx) (\<lambda>signedSpellTx.
                seq (broadcastPackage env 0 signedCommitTx signedSpellTx) (\<lambda>newTxid.
                (let vault1 = vault\<lparr>vault_beneficiaries := nbs\<rparr>;
                     vault2 = vault1\<lparr>unlockBlock := currentBlock + triggerDelayBlocks vault\<rparr> in
                seq (set_cached vaultId vault2) (\<lambda>_.
                seq (lift (calculateUnlockDate env (triggerDelayBlocks vault))) (\<lambda>unlockDateText.
                (let vault3 = vault2\<lparr>unlockDate := unlockDateText\<rparr> in
                seq (set_cached vaultId vault3) (\<lambda>_.
                seq (saveVaultToStorage vault3) (\<lambda>_.
                ret newTxid)))))))))))))))))) s"
  using assms by (simp add: updateBeneficiaries_try_def)

lemma updateBeneficiaries_try_shape:
  assumes "getVault vaultId s = (Inr vault, s1)"
    and "updateBeneficiaries_try env vaultId nbs s = (r, s')"
    and "validateBeneficiaries nbs"
  shows "set (input_charms (new_events s s')) \<subseteq> {vault_charm vault}
     \<and> (\<exists>v'. vaultsCache s' vaultId = Some v' \<and> createdBlock v' = createdBlock vault
             \<and> (\<forall>t. r = Inr t \<longrightarrow>
                   input_charms (new_events s s') = [vault_charm vault]
                   \<and> vaultStorage s' (''vault_'' @ vault_id vault) = Some v'
                   \<and> vault_beneficiaries v' = nbs
                   \<and> (\<exists>b. block_height env = Inr b
                          \<and> unlockBlock v' = b + triggerDelayBlocks vault)))
     \<and> (\<forall>k. vaultStorage s' k \<noteq> vaultStorage s k \<longrightarrow>
           (\<exists>v'. vaultStorage s' k = Some v' \<and> createdBlock v' = createdBlock vault))"
  using assms(2) getVault_cached [OF assms(1)]
  unfolding updateBeneficiaries_try_valid [OF assms(3)] new_events_def
    seq_getVault [OF assms(1)]
  by (auto simp: action_defs Let_def buildUpdateBeneficiariesSpell_def calculateAppId_def
        request_input_charms_def vault_charm_def
        split: sum.splits prod.splits if_splits option.splits)

lemma updateBeneficiaries_try_reaches_prover:
  assumes "getVault vaultId s = (Inr vault, s1)"
    and "updateBeneficiaries_try env vaultId nbs s = (r, s')"
    and "validateBeneficiaries nbs"
    and "vault_status vault = Active" and "getActiveWallet env \<noteq> None"
    and "\<not> isl (block_height env)"
    and "\<not> isl (sha256_hex env (format_utxo_id (txid (vault_utxo vaultId vault))
                                   (vout (vault_utxo vaultId vault))))"
    and "\<not> isl (raw_transaction env (txid (vault_utxo vaultId vault)))"
    and "\<not> isl (fetch_wasm env)"
  shows "input_charms (new_events s s') = [vault_charm vault]"
  using assms(2,4-) getVault_cached [OF assms(1)]
  unfolding updateBeneficiaries_try_valid [OF assms(3)] new_events_def
    seq_getVault [OF assms(1)]
  by (auto simp: action_defs Let_def buildUpdateBeneficiariesSpell_def calculateAppId_def
        request_input_charms_def
        split: sum.splits prod.splits if_splits option.splits)

lemma distribute_try_shape:
  assumes "getVault vaultId s = (Inr vault, s1)"
    and "distribute_try env vaultId s = (r, s')"
  shows "set (input_charms (new_events s s')) \<subseteq> {vault_charm vault}
     \<and> (\<exists>v'. vaultsCache s' vaultId = Some v' \<and> createdBlock v' = createdBlock vault
             \<and> vault_charm v' = vault_charm vault
             \<and> (\<forall>t. r = Inr t \<longrightarrow>
                   input_charms (new_events s s') = [vault_charm vault]
                   \<and> vaultStorage s' (''vault_'' @ vault_id vault) = Some v'
                   \<and> vault_status v' = Distributed))
     \<and> (\<forall>k. vaultStorage s' k \<noteq> vaultStorage s k \<longrightarrow>
           (\<exists>v'. vaultStorage s' k = Some v' \<and> createdBlock v' = createdBlock vault))"
  using assms(2) getVault_cached [OF assms(1)]
  unfolding distribute_try_def new_events_def seq_getVault [OF assms(1)]
  by (auto simp: action_defs Let_def buildDistributeSpell_def calculateAppId_def
        request_input_charms_def vault_charm_def
        split: sum.splits prod.splits if_splits option.splits list.splits)

lemma distribute_try_reaches_prover:
  assumes "getVault vaultId s = (Inr vault, s1)"
    and "distribute_try env vaultId s = (r, s')"
    and "block_height env = Inr b" and "unlockBlock vault < b"
    and "createdBlock vault + triggerDelayBlocks vault < b"
    and "vault_beneficiaries vault \<noteq> []"
    and "\<not> isl (sha256_hex env (format_utxo_id (txid (vault_utxo vaultId vault))
                                   (vout (vault_utxo vaultId vault))))"
    and "\<not> isl (raw_transaction env (txid (vault_utxo vaultId vault)))"
    and "\<not> isl (fetch_wasm env)"
  shows "input_charms (new_events s s') = [vault_charm vault]"
  using assms(2-) getVault_cached [OF assms(1)]
  unfolding distribute_try_def new_events_def seq_getVault [OF assms(1)]
  by (auto simp: action_defs Let_def buildDistributeSpell_def calculateAppId_def
        request_input_charms_def vault_charm_def
        split: sum.splits prod.splits if_splits option.splits list.splits)

lemma checkin_outcome:
  "snd (checkin env vaultId s) = snd (checkin_try env vaultId s)
   \<and> (fst (checkin env vaultId s) = Inr t \<longleftrightarrow> fst (checkin_try env vaultId s) = Inr t)"
  by (auto simp: checkin_def split: prod.splits sum.splits)

lemma updateBeneficiaries_outcome:
  "snd (updateBeneficiaries env vaultId nbs s) = snd (updateBeneficiaries_try env vaultId nbs s)
   \<and> (fst (updateBeneficiaries env vaultId nbs s) = Inr t
        \<longleftrightarrow> fst (updateBeneficiaries_try env vaultId nbs s) = Inr t)"
  by (auto simp: updateBeneficiaries_def split: prod.splits sum.splits)

lemma distribute_outcome:
  "snd (distribute env vaultId s) = snd (distribute_try env vaultId s)
   \<and> (fst (distribute env vaultId s) = Inr t \<longleftrightarrow> fst (distribute_try env vaultId s) = Inr t)"
  by (auto simp: distribute_def split: prod.splits sum.splits)

lemma not_isl_iff: "\<not> isl x \<longleftrightarrow> (\<exists>t. x = Inr t)"
  by (cases x) simp_all

lemma checkin_presents:
  assumes "getVault vaultId s = (Inr vault, s1)"
  shows "presents_charm (vault_charm vault) s (checkin env vaultId s)
     \<and> keeps_createdBlock vaultId vault s (checkin env vaultId s)
     \<and> (\<exists>v'. getVault vaultId (snd (checkin env vaultId s))
                = (Inr v', snd (checkin env vaultId s))
            \<and> createdBlock v' = createdBlock vault
            \<and> vault_charm v' = vault_charm vault
            \<and> (\<forall>t. fst (checkin env vaultId s) = Inr t \<longrightarrow>
                  (\<exists>b. block_height env = Inr b
                      \<and> unlockBlock v' = b + triggerDelayBlocks vault)))
     \<and> (vault_status vault = Active \<and> getActiveWallet env \<noteq> None
          \<and> prover_reachable env (vault_utxo vaultId vault) \<longrightarrow>
          input_charms (new_events s (snd (checkin env vaultId s))) = [vault_charm vault])"
proof -
  obtain r s' where run: "checkin_try env vaultId s = (r, s')"
    by (cases "checkin_try env vaultId s")
  from run checkin_outcome [of env vaultId s]
  have s: "snd (checkin env vaultId s) = s'"
    and f: "\<And>t. fst (checkin env vaultId s) = Inr t \<longleftrightarrow> r = Inr t"
    by simp_all
  from checkin_try_shape [OF assms run] obtain v' where
    sub: "set (input_charms (new_events s s')) \<subseteq> {vault_charm vault}"
    and v': "vaultsCache s' vaultId = Some v'" "createdBlock v' = createdBlock vault"
      "vault_charm v' = vault_charm vault"
    and ok: "\<forall>t. r = Inr t \<longrightarrow>
                   input_charms (new_events s s') = [vault_charm vault]
                   \<and> vaultStorage s' (''vault_'' @ vault_id vault) = Some v'
                   \<and> (\<exists>b. block_height env = Inr b
                          \<and> unlockBlock v' = b + triggerDelayBlocks vault)"
    and st: "\<forall>k. vaultStorage s' k \<noteq> vaultStorage s k \<longrightarrow>
           (\<exists>v'. vaultStorage s' k = Some v' \<and> createdBlock v' = createdBlock vault)"
    by blast
  note g = getVault_hit [OF v'(1)]
  have p: "presents_charm (vault_charm vault) s (checkin env vaultId s)"
    unfolding presents_charm_def not_isl_iff s f using sub ok by blast
  have k: "keeps_createdBlock vaultId vault s (checkin env vaultId s)"
    unfolding keeps_createdBlock_def not_isl_iff s f using g v'(2) ok st by blast
  have c: "\<exists>v'. getVault vaultId s' = (Inr v', s')
            \<and> createdBlock v' = createdBlock vault
            \<and> vault_charm v' = vault_charm vault
            \<and> (\<forall>t. r = Inr t \<longrightarrow>
                  (\<exists>b. block_height env = Inr b
                      \<and> unlockBlock v' = b + triggerDelayBlocks vault))"
    using g v'(2,3) ok by blast
  have r: "vault_status vault = Active \<and> getActiveWallet env \<noteq> None
          \<and> prover_reachable env (vault_utxo vaultId vault) \<longrightarrow>
          input_charms (new_events s s') = [vault_charm vault]"
    using checkin_try_reaches_prover [OF assms run]
    unfolding prover_reachable_def by blast
  from p k c r show ?thesis unfolding s f by blast
qed

lemma updateBeneficiaries_presents:
  assumes "getVault vaultId s = (Inr vault, s1)"
  shows "presents_charm (vault_charm vault) s (updateBeneficiaries env vaultId nbs s)
     \<and> keeps_createdBlock vaultId vault s (updateBeneficiaries env vaultId nbs s)
     \<and> (validateBeneficiaries nbs \<and> vault_status vault = Active
          \<and> getActiveWallet env \<noteq> None
          \<and> prover_reachable env (vault_utxo vaultId vault) \<longrightarrow>
          input_charms (new_events s (snd (updateBeneficiaries env vaultId nbs s)))
            = [vault_charm vault])"
proof (cases "validateBeneficiaries nbs")
  case False
  then have u: "updateBeneficiaries env vaultId nbs s
      = (Inl (CharmVaultError ''Beneficiary percentages must sum to exactly 100%''
                ''VALIDATION_ERROR''), s)"
    by (simp add: updateBeneficiaries_def updateBeneficiaries_try_def throw_def)
  with assms False show ?thesis
    by (auto simp: presents_charm_def keeps_createdBlock_def new_events_def)
next
  case True
  obtain r s' where run: "updateBeneficiaries_try env vaultId nbs s = (r, s')"
    by (cases "updateBeneficiaries_try env vaultId nbs s")
  from run updateBeneficiaries_outcome [of env vaultId nbs s]
  have s: "snd (updateBeneficiaries env vaultId nbs s) = s'"
    and f: "\<And>t. fst (updateBeneficiaries env vaultId nbs s) = Inr t \<longleftrightarrow> r = Inr t"
    by simp_all
  from updateBeneficiaries_try_shape [OF assms run True] obtain v' where
    sub: "set (input_charms (new_events s s')) \<subseteq> {vault_charm vault}"
    and v': "vaultsCache s' vaultId = Some v'" "createdBlock v' = createdBlock vault"
    and ok: "\<forall>t. r = Inr t \<longrightarrow>
                   input_charms (new_events s s') = [vault_charm vault]
                   \<and> vaultStorage s' (''vault_'' @ vault_id vault) = Some v'"
    and st: "\<forall>k. vaultStorage s' k \<noteq> vaultStorage s k \<longrightarrow>
           (\<exists>v'. vaultStorage s' k = Some v' \<and> createdBlock v' = createdBlock vault)"
    by blast
  note g = getVault_hit [OF v'(1)]
  have p: "presents_charm (vault_charm vault) s (updateBeneficiaries env vaultId nbs s)"
    unfolding presents_charm_def not_isl_iff s f using sub ok by blast
  have k: "keeps_createdBlock vaultId vault s (updateBeneficiaries env vaultId nbs s)"
    unfolding keeps_createdBlock_def not_isl_iff s f using g v'(2) ok st by blast
  have r: "vault_status vault = Active \<and> getActiveWallet env \<noteq> None
          \<and> prover_reachable env (vault_utxo vaultId vault) \<longrightarrow>
          input_charms (new_events s s') = [vault_charm vault]"
    using updateBeneficiaries_try_reaches_prover [OF assms run True]
    unfolding prover_reachable_def by blast
  from p k r show ?thesis unfolding s by blast
qed

lemma distribute_presents:
  assumes "getVault vaultId s = (Inr vault, s1)"
  shows "presents_charm (vault_charm vault) s (distribute env vaultId s)
     \<and> keeps_createdBlock vaultId vault s (distribute env vaultId s)
     \<and> ((\<exists>b. block_height env = Inr b \<and> unlockBlock vault < b
               \<and> createdBlock vault + triggerDelayBlocks vault < b)
          \<and> vault_beneficiaries vault \<noteq> []
          \<and> prover_reachable env (vault_utxo vaultId vault) \<longrightarrow>
          input_charms (new_events s (snd (distribute env vaultId s))) = [vault_charm vault])"
proof -
  obtain r s' where run: "distribute_try env vaultId s = (r, s')"
    by (cases "distribute_try env vaultId s")
  from run distribute_outcome [of env vaultId s]
  have s: "snd (distribute env vaultId s) = s'"
    and f: "\<And>t. fst (distribute env vaultId s) = Inr t \<longleftrightarrow> r = Inr t"
    by simp_all
  from distribute_try_shape [OF assms run] obtain v' where
    sub: "set (input_charms (new_events s s')) \<subseteq> {vault_charm vault}"
    and v': "vaultsCache s' vaultId = Some v'" "createdBlock v' = createdBlock vault"
    and ok: "\<forall>t. r = Inr t \<longrightarrow>
                   input_charms (new_events s s') = [vault_charm vault]
                   \<and> vaultStorage s' (''vault_'' @ vault_id vault) = Some v'"
    and st: "\<forall>k. vaultStorage s' k \<noteq> vaultStorage s k \<longrightarrow>
           (\<exists>v'. vaultStorage s' k = Some v' \<and> createdBlock v' = createdBlock vault)"
    by blast
  note g = getVault_hit [OF v'(1)]
  have p: "presents_charm (vault_charm vault) s (distribute env vaultId s)"
    unfolding presents_charm_def not_isl_iff s f using sub ok by blast
  have k: "keeps_createdBlock vaultId vault s (distribute env vaultId s)"
    unfolding keeps_createdBlock_def not_isl_iff s f using g v'(2) ok st by blast
  have r: "(\<exists>b. block_height env = Inr b \<and> unlockBlock vault < b
               \<and> createdBlock vault + triggerDelayBlocks vault < b)
          \<and> vault_beneficiaries vault \<noteq> []
          \<and> prover_reachable env (vault_utxo vaultId vault) \<longrightarrow>
          input_charms (new_events s s') = [vault_charm vault]"
    using distribute_try_reaches_prover [OF assms run]
    unfolding prover_reachable_def by blast
  from p k r show ?thesis unfolding s by blast
qed

text \<open>
  C10. Let \<open>getVault\<close> find a vault record, and let \<open>charm\<close> be the contract state made of
  the record's owner key, trigger delay and beneficiaries with \<open>last_checkin_block\<close> set
  to the record's \<open>createdBlock\<close>. Whatever the collaborators answer, every input charm
  that \<open>checkin\<close>, \<open>updateBeneficiaries\<close> or \<open>distribute\<close> sends to the prover is
  \<open>charm\<close>, and an operation that succeeds has sent it exactly once. Each operation does
  send it once the steps before the proof request succeed: the status and wallet checks,
  the validation of the new beneficiaries, the two block-height gates of \<open>distribute\<close>,
  and the requests that deliver the block height, the digest, the previous transaction
  and the contract binary. After each operation the record that \<open>getVault\<close> finds, the
  record a successful operation has written to local storage, and every record written to
  local storage have the same \<open>createdBlock\<close>. After a successful check-in at block \<open>b\<close>
  the record has \<open>unlockBlock = b + triggerDelayBlocks\<close>, and whether the check-in
  succeeded or not, a following check-in, update or distribution again presents \<open>charm\<close>.
\<close>

theorem input_charm_carries_createdBlock:
  assumes "getVault vaultId s = (Inr vault, s1)"
    and "charm = \<lparr>owner_pubkey = ownerPubkey vault, last_checkin_block = createdBlock vault,
                  trigger_delay_blocks = triggerDelayBlocks vault,
                  beneficiaries = vault_beneficiaries vault, status = Active\<rparr>"
  shows "presents_charm charm s (checkin env vaultId s)
     \<and> presents_charm charm s (updateBeneficiaries env vaultId nbs s)
     \<and> presents_charm charm s (distribute env vaultId s)
     \<and> (vault_status vault = Active \<and> getActiveWallet env \<noteq> None
          \<and> prover_reachable env (vault_utxo vaultId vault) \<longrightarrow>
          input_charms (new_events s (snd (checkin env vaultId s))) = [charm])
     \<and> (validateBeneficiaries nbs \<and> vault_status vault = Active
          \<and> getActiveWallet env \<noteq> None
          \<and> prover_reachable env (vault_utxo vaultId vault) \<longrightarrow>
          input_charms (new_events s (snd (updateBeneficiaries env vaultId nbs s))) = [charm])
     \<and> ((\<exists>b. block_height env = Inr b \<and> unlockBlock vault < b
               \<and> createdBlock vault + triggerDelayBlocks vault < b)
          \<and> vault_beneficiaries vault \<noteq> []
          \<and> prover_reachable env (vault_utxo vaultId vault) \<longrightarrow>
          input_charms (new_events s (snd (distribute env vaultId s))) = [charm])
     \<and> keeps_createdBlock vaultId vault s (checkin env vaultId s)
     \<and> keeps_createdBlock vaultId vault s (updateBeneficiaries env vaultId nbs s)
     \<and> keeps_createdBlock vaultId vault s (distribute env vaultId s)
     \<and> (\<forall>t. fst (checkin env vaultId s) = Inr t \<longrightarrow>
           (\<exists>b v'. block_height env = Inr b
              \<and> getVault vaultId (snd (checkin env vaultId s))
                  = (Inr v', snd (checkin env vaultId s))
              \<and> unlockBlock v' = b + triggerDelayBlocks vault
              \<and> createdBlock v' = createdBlock vault))
     \<and> presents_charm charm (snd (checkin env vaultId s))
          (checkin env2 vaultId (snd (checkin env vaultId s)))
     \<and> presents_charm charm (snd (checkin env vaultId s))
          (updateBeneficiaries env2 vaultId nbs2 (snd (checkin env vaultId s)))
     \<and> presents_charm charm (snd (checkin env vaultId s))
          (distribute env2 vaultId (snd (checkin env vaultId s)))"
proof -
  have charm: "charm = vault_charm vault"
    by (simp add: assms(2) vault_charm_def)
  let ?s2 = "snd (checkin env vaultId s)"
  note c = checkin_presents [OF assms(1), of env]
  note u = updateBeneficiaries_presents [OF assms(1), of env nbs]
  note d = distribute_presents [OF assms(1), of env]
  from c obtain v' where g: "getVault vaultId ?s2 = (Inr v', ?s2)"
    and cb: "createdBlock v' = createdBlock vault"
    and vc: "vault_charm v' = vault_charm vault"
    and adv: "\<forall>t. fst (checkin env vaultId s) = Inr t \<longrightarrow>
                  (\<exists>b. block_height env = Inr b
                      \<and> unlockBlock v' = b + triggerDelayBlocks vault)"
    by blast
  have advance: "\<forall>t. fst (checkin env vaultId s) = Inr t \<longrightarrow>
           (\<exists>b v'. block_height env = Inr b
              \<and> getVault vaultId ?s2 = (Inr v', ?s2)
              \<and> unlockBlock v' = b + triggerDelayBlocks vault
              \<and> createdBlock v' = createdBlock vault)"
    using g cb adv by blast
  from checkin_presents [OF g, of env2] vc
  have c2: "presents_charm (vault_charm vault) ?s2 (checkin env2 vaultId ?s2)"
    by simp
  from updateBeneficiaries_presents [OF g, of env2 nbs2] vc
  have u2: "presents_charm (vault_charm vault) ?s2 (updateBeneficiaries env2 vaultId nbs2 ?s2)"
    by simp
  from distribute_presents [OF g, of env2] vc
  have d2: "presents_charm (vault_charm vault) ?s2 (distribute env2 vaultId ?s2)"
    by simp
  from c u d advance c2 u2 d2 show ?thesis
    unfolding charm by blast
qed

theorem input_charm_carries_createdBlock_witness:
  "fst (checkin example_env ''f00d:0'' example_state) = Inr ''f00d''
   \<and> input_charms (new_events example_state (snd (checkin example_env ''f00d:0'' example_state)))
       = [example_charm 100 50 (vault_beneficiaries example_vault)]
   \<and> fst (updateBeneficiaries example_env ''f00d:0''
            [\<lparr>address = ''tb1qheir3'', percentage = 100\<rparr>] example_state) = Inr ''f00d''
   \<and> input_charms (new_events example_state
        (snd (updateBeneficiaries example_env ''f00d:0''
               [\<lparr>address = ''tb1qheir3'', percentage = 100\<rparr>] example_state)))
       = [example_charm 100 50 (vault_beneficiaries example_vault)]
   \<and> fst (distribute example_env ''f00d:0'' example_state) = Inr ''f00d''
   \<and> input_charms (new_events example_state (snd (distribute example_env ''f00d:0'' example_state)))
       = [example_charm 100 50 (vault_beneficiaries example_vault)]
   \<and> map_option unlockBlock
        (vaultsCache (snd (checkin example_env ''f00d:0'' example_state)) ''f00d:0'') = Some 201
   \<and> map_option createdBlock
        (vaultStorage (snd (checkin example_env ''f00d:0'' example_state)) ''vault_f00d:0'')
       = Some 100
   \<and> fst (distribute (example_env\<lparr>block_height := Inr 300\<rparr>) ''f00d:0''
            (snd (checkin example_env ''f00d:0'' example_state))) = Inr ''f00d''
   \<and> input_charms (new_events (snd (checkin example_env ''f00d:0'' example_state))
        (snd (distribute (example_env\<lparr>block_height := Inr 300\<rparr>) ''f00d:0''
               (snd (checkin example_env ''f00d:0'' example_state)))))
       = [example_charm 100 50 (vault_beneficiaries example_vault)]"
proof -
  let ?nbs = "[\<lparr>address = ''tb1qheir3'', percentage = 100\<rparr>]"
  let ?env2 = "example_env\<lparr>block_height := Inr 300\<rparr>"
  let ?s2 = "snd (checkin example_env ''f00d:0'' example_state)"
  have charm: "example_charm 100 50 (vault_beneficiaries example_vault)
      = \<lparr>owner_pubkey = ownerPubkey example_vault,
         last_checkin_block = createdBlock example_vault,
         trigger_delay_blocks = triggerDelayBlocks example_vault,
         beneficiaries = vault_beneficiaries example_vault, status = Active\<rparr>"
    by (simp add: example_charm_def example_vault_def)
  have c: "fst (checkin example_env ''f00d:0'' example_state) = Inr ''f00d''"
    by (simp add: checkin_def checkin_try_def buildCheckinSpell_def eval_defs example_defs)
  have u: "fst (updateBeneficiaries example_env ''f00d:0'' ?nbs example_state) = Inr ''f00d''"
    by (simp add: updateBeneficiaries_def updateBeneficiaries_try_def
          buildUpdateBeneficiariesSpell_def eval_defs example_defs)
  have d: "fst (distribute example_env ''f00d:0'' example_state) = Inr ''f00d''"
    by (simp add: distribute_def distribute_try_def buildDistributeSpell_def
          eval_defs example_defs)
  have ub: "map_option unlockBlock (vaultsCache ?s2 ''f00d:0'') = Some 201"
    by (simp add: checkin_def checkin_try_def buildCheckinSpell_def eval_defs example_defs)
  have cb: "map_option createdBlock (vaultStorage ?s2 ''vault_f00d:0'') = Some 100"
    by (simp add: checkin_def checkin_try_def buildCheckinSpell_def eval_defs example_defs)
  have d2: "fst (distribute ?env2 ''f00d:0'' ?s2) = Inr ''f00d''"
    by (simp add: checkin_def checkin_try_def buildCheckinSpell_def
          distribute_def distribute_try_def buildDistributeSpell_def eval_defs example_defs)
  note t = input_charm_carries_createdBlock
             [OF example_getVault charm, of example_env ?nbs ?env2 ?nbs]
  from t c have "input_charms (new_events example_state ?s2)
       = [example_charm 100 50 (vault_beneficiaries example_vault)]"
    unfolding presents_charm_def by simp
  moreover from t u have "input_charms (new_events example_state
        (snd (updateBeneficiaries example_env ''f00d:0'' ?nbs example_state)))
       = [example_charm 100 50 (vault_beneficiaries example_vault)]"
    unfolding presents_charm_def by simp
  moreover from t d have "input_charms (new_events example_state
        (snd (distribute example_env ''f00d:0'' example_state)))
       = [example_charm 100 50 (vault_beneficiaries example_vault)]"
    unfolding presents_charm_def by simp
  moreover from t d2 have "input_charms (new_events ?s2
        (snd (distribute ?env2 ''f00d:0'' ?s2)))
       = [example_charm 100 50 (vault_beneficiaries example_vault)]"
    unfolding presents_charm_def by simp
  ultimately show ?thesis
    using c u d ub cb d2 by blast
qed

subsection \<open>The spell transaction on its way to the node\<close>

text \<open>
  C1. In the example environment the prover answers with the spell transaction \<open>5e\<close> and
  the wallet returns what it is given with \<open>ff\<close> appended. \<open>checkin\<close>,
  \<open>updateBeneficiaries\<close> and \<open>distribute\<close> pass the spell transaction through the
  wallet and submit \<open>5eff\<close>, not the transaction received. \<open>createVault\<close> submits the
  transaction as received, on the direct attempt and again beside the wallet-signed commit
  transaction (see also \<open>createVault_spell_tx_untouched\<close>).
\<close>

theorem spell_tx_signed_before_broadcast:
  "prover_outputs example_env (trace (snd (checkin example_env ''f00d:0'' example_state)))
     = [(''c0'', ''5e'')]
   \<and> broadcast_calls (trace (snd (checkin example_env ''f00d:0'' example_state)))
     = [(''c0ff'', ''5eff'')]
   \<and> broadcast_calls (trace (snd (updateBeneficiaries example_env ''f00d:0''
          [\<lparr>address = ''tb1qheir3'', percentage = 100\<rparr>] example_state)))
     = [(''c0ff'', ''5eff'')]
   \<and> broadcast_calls (trace (snd (distribute example_env ''f00d:0'' example_state)))
     = [(''c0ff'', ''5eff'')]
   \<and> broadcast_calls (trace (snd (createVault
          (example_env\<lparr>submit_package :=
             (\<lambda>n c sp. if n = 0 then Inl (Error ''missing-inputs'') else Inr ''f00d'')\<rparr>)
          4000 [\<lparr>address = ''tb1qheir'', percentage = 100\<rparr>] 144 empty_state)))
     = [(''c0'', ''5e''), (''c0ff'', ''5e'')]"
  by (simp add: checkin_def checkin_try_def buildCheckinSpell_def
        updateBeneficiaries_def updateBeneficiaries_try_def buildUpdateBeneficiariesSpell_def
        distribute_def distribute_try_def buildDistributeSpell_def distribution_output_def
        createVault_eval_defs eval_defs example_defs)

subsection \<open>The transaction format converter\<close>

lemma finalize_one_cases:
  "finalize_one lib rest i input =
     (if finalScriptWitness input \<noteq> None \<or> finalScriptSig input \<noteq> None then Inr input
      else if \<not> isl (finalizeInput lib rest i input) then Inr (projr (finalizeInput lib rest i input))
      else if tapKeySig input \<noteq> None then
        Inr (input\<lparr>finalScriptWitness := Some (witness_stack [the (tapKeySig input)])\<rparr>)
      else if partialSig input \<noteq> [] then
        Inr (input\<lparr>finalScriptWitness :=
               Some (witness_stack [signature (hd (partialSig input)),
                                    pubkey (hd (partialSig input))])\<rparr>)
      else Inl (Error (''Unable to finalize input '' @ show_nat i @ '': no signature found'')))"
  by (auto simp: finalize_one_def manual_witness_def witness_stack_def
        split: sum.splits option.splits list.splits)

lemma finalize_one_Inl_iff:
  "isl (finalize_one lib rest i input) \<longleftrightarrow> no_witness_data lib rest i input"
  by (auto simp: finalize_one_cases no_witness_data_def)

lemma finalize_one_Inl:
  "finalize_one lib rest i input = Inl e \<Longrightarrow>
   e = Error (''Unable to finalize input '' @ show_nat i @ '': no signature found'')"
  by (auto simp: finalize_one_cases split: if_splits)

lemma finalize_from_Inr:
  "finalize_from lib rest k inps = Inr fins \<Longrightarrow>
   length fins = length inps
   \<and> (\<forall>i<length inps. finalize_one lib rest (k + i) (inps ! i) = Inr (fins ! i))"
proof (induction inps arbitrary: k fins)
  case Nil
  then show ?case by simp
next
  case (Cons input others)
  from Cons.prems obtain input' others' where
    one: "finalize_one lib rest k input = Inr input'"
    and rest: "finalize_from lib rest (Suc k) others = Inr others'"
    and fins: "fins = input' # others'"
    by (auto split: sum.splits)
  from Cons.IH [OF rest]
  have len: "length others' = length others"
    and each: "\<forall>i<length others. finalize_one lib rest (Suc k + i) (others ! i) = Inr (others' ! i)"
    by simp_all
  show ?case
  proof (intro conjI allI impI)
    show "length fins = length (input # others)" by (simp add: fins len)
    fix i
    assume "i < length (input # others)"
    then show "finalize_one lib rest (k + i) ((input # others) ! i) = Inr (fins ! i)"
      using one each by (cases i) (simp_all add: fins)
  qed
qed

lemma finalize_from_Inl:
  "finalize_from lib rest k inps = Inl e \<Longrightarrow>
   \<exists>i<length inps. no_witness_data lib rest (k + i) (inps ! i)
      \<and> e = Error (''Unable to finalize input '' @ show_nat (k + i) @ '': no signature found'')
      \<and> (\<forall>j<i. \<not> no_witness_data lib rest (k + j) (inps ! j))"
proof (induction inps arbitrary: k)
  case Nil
  then show ?case by simp
next
  case (Cons input others)
  show ?case
  proof (cases "finalize_one lib rest k input")
    case (Inl e')
    with Cons.prems have "e' = e" by simp
    with Inl finalize_one_Inl [of lib rest k input e]
      finalize_one_Inl_iff [of lib rest k input]
    have "no_witness_data lib rest (k + 0) ((input # others) ! 0)
      \<and> e = Error (''Unable to finalize input '' @ show_nat (k + 0) @ '': no signature found'')"
      by simp
    then show ?thesis by (intro exI [of _ 0]) simp
  next
    case (Inr input')
    with Cons.prems have "finalize_from lib rest (Suc k) others = Inl e"
      by (auto split: sum.splits)
    from Cons.IH [OF this] obtain i where i: "i < length others"
      and nw: "no_witness_data lib rest (Suc k + i) (others ! i)"
      and e: "e = Error (''Unable to finalize input '' @ show_nat (Suc k + i) @ '': no signature found'')"
      and before: "\<forall>j<i. \<not> no_witness_data lib rest (Suc k + j) (others ! j)"
      by blast
    from Inr finalize_one_Inl_iff [of lib rest k input]
    have first: "\<not> no_witness_data lib rest k input" by simp
    have "\<forall>j<Suc i. \<not> no_witness_data lib rest (k + j) ((input # others) ! j)"
    proof (intro allI impI)
      fix j assume "j < Suc i"
      then show "\<not> no_witness_data lib rest (k + j) ((input # others) ! j)"
        using first before by (cases j) simp_all
    qed
    with i nw e show ?thesis
      by (intro exI [of _ "Suc i"]) simp
  qed
qed

lemma finalize_from_total:
  "(\<forall>i<length inps. \<not> no_witness_data lib rest (k + i) (inps ! i)) \<Longrightarrow>
   \<exists>fins. finalize_from lib rest k inps = Inr fins"
proof (cases "finalize_from lib rest k inps")
  case (Inl e)
  assume "\<forall>i<length inps. \<not> no_witness_data lib rest (k + i) (inps ! i)"
  with finalize_from_Inl [OF Inl] show ?thesis by blast
next
  case (Inr fins)
  then show ?thesis by blast
qed

text \<open>
  C9. Let the signed PSBT parse. If \<open>finalizeAllInputs\<close> succeeds, the transaction is
  extracted from the PSBT it leaves. If it throws, every input is visited in order: an
  input that is finalized already is kept; otherwise \<open>finalizeInput\<close> is tried, and
  where that throws, an input with a Taproot key signature gets as its final witness the
  stack of that one signature, an input with no such signature but a partial signature
  gets the stack of the first partial signature and then its public key, and an input
  with neither stops the extraction with the error ``Unable to finalize input i: no
  signature found''.
\<close>

theorem extractTxFromPsbt_finalization:
  assumes "psbt_fromHex lib hex net = Inr psbt"
  shows "(\<forall>finalized. finalizeAllInputs lib psbt = (None, finalized) \<longrightarrow>
            extractTxFromPsbt lib hex net = extractTransaction lib finalized)
     \<and> (\<forall>err psbt1. finalizeAllInputs lib psbt = (Some err, psbt1) \<longrightarrow>
          ((\<exists>i<length (inputs psbt1). no_witness_data lib (psbt_rest psbt1) i (inputs psbt1 ! i))
             \<longrightarrow> (\<exists>i<length (inputs psbt1).
                     no_witness_data lib (psbt_rest psbt1) i (inputs psbt1 ! i)
                     \<and> extractTxFromPsbt lib hex net
                         = Inl (Error (''Unable to finalize input '' @ show_nat i
                                        @ '': no signature found''))))
          \<and> ((\<forall>i<length (inputs psbt1). \<not> no_witness_data lib (psbt_rest psbt1) i (inputs psbt1 ! i))
             \<longrightarrow> (\<exists>inputs2. length inputs2 = length (inputs psbt1)
                     \<and> extractTxFromPsbt lib hex net
                         = extractTransaction lib (psbt1\<lparr>inputs := inputs2\<rparr>)
                     \<and> (\<forall>i<length (inputs psbt1).
                           inputs2 ! i =
                             (let input = inputs psbt1 ! i in
                              if finalScriptWitness input \<noteq> None \<or> finalScriptSig input \<noteq> None
                              then input
                              else if \<not> isl (finalizeInput lib (psbt_rest psbt1) i input)
                              then projr (finalizeInput lib (psbt_rest psbt1) i input)
                              else if tapKeySig input \<noteq> None
                              then input\<lparr>finalScriptWitness :=
                                     Some (witness_stack [the (tapKeySig input)])\<rparr>
                              else input\<lparr>finalScriptWitness :=
                                     Some (witness_stack
                                             [signature (hd (partialSig input)),
                                              pubkey (hd (partialSig input))])\<rparr>)))))"
proof (intro conjI allI impI)
  fix finalized
  assume "finalizeAllInputs lib psbt = (None, finalized)"
  with assms show "extractTxFromPsbt lib hex net = extractTransaction lib finalized"
    by (simp add: extractTxFromPsbt_def)
next
  fix err psbt1
  assume fa: "finalizeAllInputs lib psbt = (Some err, psbt1)"
    and ex: "\<exists>i<length (inputs psbt1). no_witness_data lib (psbt_rest psbt1) i (inputs psbt1 ! i)"
  have "\<exists>e. finalize_from lib (psbt_rest psbt1) 0 (inputs psbt1) = Inl e"
  proof (cases "finalize_from lib (psbt_rest psbt1) 0 (inputs psbt1)")
    case (Inl e)
    then show ?thesis by blast
  next
    case (Inr fins)
    from finalize_from_Inr [OF Inr] ex finalize_one_Inl_iff [of lib "psbt_rest psbt1"]
    show ?thesis by (metis add_0 sum.disc(2))
  qed
  then obtain e where e: "finalize_from lib (psbt_rest psbt1) 0 (inputs psbt1) = Inl e"
    by blast
  from finalize_from_Inl [OF e] obtain i where "i < length (inputs psbt1)"
    and "no_witness_data lib (psbt_rest psbt1) i (inputs psbt1 ! i)"
    and "e = Error (''Unable to finalize input '' @ show_nat i @ '': no signature found'')"
    by auto
  moreover from assms fa e have "extractTxFromPsbt lib hex net = Inl e"
    by (simp add: extractTxFromPsbt_def)
  ultimately show "\<exists>i<length (inputs psbt1).
                     no_witness_data lib (psbt_rest psbt1) i (inputs psbt1 ! i)
                     \<and> extractTxFromPsbt lib hex net
                         = Inl (Error (''Unable to finalize input '' @ show_nat i
                                        @ '': no signature found''))"
    by blast
next
  fix err psbt1
  assume fa: "finalizeAllInputs lib psbt = (Some err, psbt1)"
    and all: "\<forall>i<length (inputs psbt1). \<not> no_witness_data lib (psbt_rest psbt1) i (inputs psbt1 ! i)"
  from all have "\<forall>i<length (inputs psbt1).
      \<not> no_witness_data lib (psbt_rest psbt1) (0 + i) (inputs psbt1 ! i)"
    by simp
  from finalize_from_total [OF this]
  obtain fins where fins: "finalize_from lib (psbt_rest psbt1) 0 (inputs psbt1) = Inr fins"
    by blast
  from finalize_from_Inr [OF fins]
  have len: "length fins = length (inputs psbt1)"
    and each: "\<forall>i<length (inputs psbt1).
                 finalize_one lib (psbt_rest psbt1) i (inputs psbt1 ! i) = Inr (fins ! i)"
    by simp_all
  have ex: "extractTxFromPsbt lib hex net = extractTransaction lib (psbt1\<lparr>inputs := fins\<rparr>)"
    using assms fa fins by (simp add: extractTxFromPsbt_def)
  have "\<forall>i<length (inputs psbt1).
          fins ! i =
            (let input = inputs psbt1 ! i in
             if finalScriptWitness input \<noteq> None \<or> finalScriptSig input \<noteq> None
             then input
             else if \<not> isl (finalizeInput lib (psbt_rest psbt1) i input)
             then projr (finalizeInput lib (psbt_rest psbt1) i input)
             else if tapKeySig input \<noteq> None
             then input\<lparr>finalScriptWitness := Some (witness_stack [the (tapKeySig input)])\<rparr>
             else input\<lparr>finalScriptWitness :=
                          Some (witness_stack
                                  [signature (hd (partialSig input)),
                                   pubkey (hd (partialSig input))])\<rparr>)"
  proof (intro allI impI)
    fix i assume i: "i < length (inputs psbt1)"
    with each have "finalize_one lib (psbt_rest psbt1) i (inputs psbt1 ! i) = Inr (fins ! i)"
      by blast
    moreover from all i have "\<not> no_witness_data lib (psbt_rest psbt1) i (inputs psbt1 ! i)"
      by blast
    ultimately show "fins ! i =
            (let input = inputs psbt1 ! i in
             if finalScriptWitness input \<noteq> None \<or> finalScriptSig input \<noteq> None
             then input
             else if \<not> isl (finalizeInput lib (psbt_rest psbt1) i input)
             then projr (finalizeInput lib (psbt_rest psbt1) i input)
             else if tapKeySig input \<noteq> None
             then input\<lparr>finalScriptWitness := Some (witness_stack [the (tapKeySig input)])\<rparr>
             else input\<lparr>finalScriptWitness :=
                          Some (witness_stack
                                  [signature (hd (partialSig input)),
                                   pubkey (hd (partialSig input))])\<rparr>)"
      by (auto simp: finalize_one_cases Let_def no_witness_data_def split: if_splits)
  qed
  with len ex show "\<exists>inputs2. length inputs2 = length (inputs psbt1)
                     \<and> extractTxFromPsbt lib hex net
                         = extractTransaction lib (psbt1\<lparr>inputs := inputs2\<rparr>)
                     \<and> (\<forall>i<length (inputs psbt1).
                           inputs2 ! i =
                             (let input = inputs psbt1 ! i in
                              if finalScriptWitness input \<noteq> None \<or> finalScriptSig input \<noteq> None
                              then input
                              else if \<not> isl (finalizeInput lib (psbt_rest psbt1) i input)
                              then projr (finalizeInput lib (psbt_rest psbt1) i input)
                              else if tapKeySig input \<noteq> None
                              then input\<lparr>finalScriptWitness :=
                                     Some (witness_stack [the (tapKeySig input)])\<rparr>
                              else input\<lparr>finalScriptWitness :=
                                     Some (witness_stack
                                             [signature (hd (partialSig input)),
                                              pubkey (hd (partialSig input))])\<rparr>))"
    by blast
qed

theorem extractTxFromPsbt_finalization_witness:
  "finalize_from example_lib ''70736274c0ff'' 0 [taproot_input, segwit_input, finalized_input]
     = Inr [taproot_input\<lparr>finalScriptWitness := Some [0x01, 0x02, 0xAA, 0xBB]\<rparr>,
            segwit_input\<lparr>finalScriptWitness :=
                           Some [0x02, 0x02, 0x30, 0x44, 0x03, 0x02, 0x03, 0x04]\<rparr>,
            finalized_input]
   \<and> extractTxFromPsbt example_lib ''70736274c0ff'' testnet = Inr ''c0ff''
   \<and> extractTxFromPsbt example_lib ''bad'' testnet
       = Inl (Error ''Unable to finalize input 1: no signature found'')"
  using extractTxFromPsbt_finalization
          [of example_lib "''70736274c0ff''" testnet
              "\<lparr>inputs = [taproot_input, segwit_input, finalized_input],
                psbt_rest = ''70736274c0ff''\<rparr>"]
        extractTxFromPsbt_finalization
          [of example_lib "''bad''" testnet
              "\<lparr>inputs = [taproot_input, unsigned_input], psbt_rest = ''bad''\<rparr>"]
  by (simp add: extractTxFromPsbt_def finalize_one_def manual_witness_def example_lib_def
        taproot_input_def segwit_input_def finalized_input_def unsigned_input_def
        show_nat.simps digit_char_def)

end
